theory Spec2Isabelle
  imports
    Complex_Main
    "HOL-Library.AList"
    "HOL-Library.Char_ord"
    "HOL-Library.List_Lexorder"
    "HOL-Library.Product_Lexorder"
    "HOL-Library.Sublist"
begin

section \<open>Data model: cells, columns, frames\<close>

text \<open>
  \<^verbatim>\<open>nobel_analysis.py\<close> is a linear pandas script. A DataFrame is embedded as an
  association list from column names to columns, in column order. A column read by
  \<^verbatim>\<open>pd.read_csv\<close> is either numeric or of dtype object (text, with NaN for a missing
  value). A numeric column without a missing value is of dtype int64: its values lie
  between \<open>-2^63\<close> and \<open>2^63 - 1\<close> and its arithmetic wraps around. A numeric column with a
  missing value is of dtype float64; the embedding keeps its whole numbers only, and
  float arithmetic on whole numbers is exact up to the magnitude \<open>2^53\<close>.
  \<^verbatim>\<open>mapped[std] = None\<close> makes an object column of nulls. Strings are byte strings; case
  mapping and whitespace are those of ASCII.
\<close>

datatype cell = Null | Str string | Num int

datatype column = ObjCol "cell list" | NumCol "int option list"

type_synonym frame = "(string \<times> column) list"

datatype error =
    ValueError "string list"  \<comment> \<open>\<^verbatim>\<open>raise ValueError(f"Missing or empty columns: {missing}")\<close>\<close>
  | AttributeError            \<comment> \<open>\<^verbatim>\<open>.str\<close> accessor on a column without string values\<close>
  | TypeError                 \<comment> \<open>an operator or \<^verbatim>\<open>str.join\<close> applied to a value of the wrong type\<close>
  | KeyError                  \<comment> \<open>\<^verbatim>\<open>df[name]\<close> for a column that does not exist\<close>
  | ArgmaxOfEmpty             \<comment> \<open>\<^verbatim>\<open>idxmax\<close> of an empty Series\<close>
  | IndexError                \<comment> \<open>bar plot of an empty Series\<close>
  | ZeroSizeReduction         \<comment> \<open>heat map of a frame without rows or without columns\<close>

definition bind_err :: "error + 'a \<Rightarrow> ('a \<Rightarrow> error + 'b) \<Rightarrow> error + 'b" where
  "bind_err m f = (case m of Inl e \<Rightarrow> Inl e | Inr x \<Rightarrow> f x)"

fun sequence_err :: "(error + 'a) list \<Rightarrow> error + 'a list" where
  "sequence_err [] = Inr []"
| "sequence_err (m # ms) =
     (case m of Inl e \<Rightarrow> Inl e
      | Inr x \<Rightarrow> (case sequence_err ms of Inl e \<Rightarrow> Inl e | Inr xs \<Rightarrow> Inr (x # xs)))"

fun num_cell :: "int option \<Rightarrow> cell" where
  "num_cell None = Null"
| "num_cell (Some n) = Num n"

fun cells :: "column \<Rightarrow> cell list" where
  "cells (ObjCol cs) = cs"
| "cells (NumCol xs) = map num_cell xs"

fun isna :: "cell \<Rightarrow> bool" where
  "isna Null = True"
| "isna _ = False"

fun is_str :: "cell \<Rightarrow> bool" where
  "is_str (Str _) = True"
| "is_str _ = False"

definition nrows :: "frame \<Rightarrow> nat" where
  "nrows df = (case df of [] \<Rightarrow> 0 | (_, c) # _ \<Rightarrow> length (cells c))"

text \<open>Every column of a DataFrame has the DataFrame's number of rows, and names are unique.\<close>

definition wf_frame :: "frame \<Rightarrow> bool" where
  "wf_frame df = (distinct (map fst df) \<and> list_all (\<lambda>(_, c). length (cells c) = nrows df) df)"

definition fillna :: "cell \<Rightarrow> cell list \<Rightarrow> cell list" where
  "fillna v cs = map (\<lambda>c. if isna c then v else c) cs"

section \<open>Column mapping (\<^verbatim>\<open>map_columns\<close>)\<close>

definition col_map :: "(string \<times> string list) list" where
  "col_map =
    [(''year'', [''year'', ''year_award'', ''awardYear'', ''Year'', ''prizeYear'']),
     (''full_name'', [''full_name'', ''name'', ''laureate_name'', ''Full Name'', ''firstname'', ''surname'']),
     (''sex'', [''sex'', ''gender'', ''Sex'', ''Gender'']),
     (''birth_country'', [''birth_country'', ''bornCountry'', ''country'', ''birthCountry'',
                           ''Birth Country'', ''birth_countryNow'']),
     (''category'', [''category'', ''prize_category'', ''Category'', ''discipline''])]"

definition aliases :: "string \<Rightarrow> string list" where
  "aliases std = (case map_of col_map std of None \<Rightarrow> [] | Some vs \<Rightarrow> vs)"

text \<open>The inner \<^verbatim>\<open>for v in variants: if v in df.columns: ... break\<close>; \<open>None\<close> is the \<^verbatim>\<open>else\<close> branch.\<close>

fun find_variant :: "frame \<Rightarrow> string list \<Rightarrow> column option" where
  "find_variant df [] = None"
| "find_variant df (v # vs) =
     (case map_of df v of Some c \<Rightarrow> Some c | None \<Rightarrow> find_variant df vs)"

text \<open>What \<^verbatim>\<open>mapped[std]\<close> is set to: the first alias found, or \<^verbatim>\<open>None\<close> in every row.\<close>

definition mapped_col :: "frame \<Rightarrow> string list \<Rightarrow> column" where
  "mapped_col df variants =
     (case find_variant df variants of
        Some c \<Rightarrow> c
      | None \<Rightarrow> ObjCol (replicate (nrows df) Null))"

definition map_one :: "frame \<Rightarrow> frame \<Rightarrow> string \<times> string list \<Rightarrow> frame" where
  "map_one df mapped sv = AList.update (fst sv) (mapped_col df (snd sv)) mapped"

definition map_columns :: "frame \<Rightarrow> frame" where
  "map_columns df = foldl (map_one df) df col_map"

section \<open>Gender normalisation and name synthesis\<close>

definition upper_chars :: string where
  "upper_chars = ''ABCDEFGHIJKLMNOPQRSTUVWXYZ''"

definition lower_chars :: string where
  "lower_chars = ''abcdefghijklmnopqrstuvwxyz''"

definition lower_char :: "char \<Rightarrow> char" where
  "lower_char c = (case map_of (zip upper_chars lower_chars) c of Some d \<Rightarrow> d | None \<Rightarrow> c)"

definition py_lower :: "string \<Rightarrow> string" where
  "py_lower s = map lower_char s"

text \<open>The characters \<^verbatim>\<open>str.strip()\<close> removes: ASCII 9 to 13, 28 to 32.\<close>

definition is_space :: "char \<Rightarrow> bool" where
  "is_space c = (of_char c \<in> {9::nat, 10, 11, 12, 13, 28, 29, 30, 31, 32})"

definition py_strip :: "string \<Rightarrow> string" where
  "py_strip s = rev (dropWhile is_space (rev (dropWhile is_space s)))"

text \<open>
  The \<^verbatim>\<open>.str\<close> accessor raises AttributeError unless the column is of dtype object and
  holds a string or only nulls. Its methods give NaN for a value that is not a string.
\<close>

definition str_ok :: "cell list \<Rightarrow> bool" where
  "str_ok cs = (list_ex is_str cs \<or> list_all isna cs)"

fun str_accessor :: "column \<Rightarrow> error + cell list" where
  "str_accessor (ObjCol cs) = (if str_ok cs then Inr cs else Inl AttributeError)"
| "str_accessor (NumCol xs) = Inl AttributeError"

fun str_lower :: "cell \<Rightarrow> cell" where
  "str_lower (Str s) = Str (py_lower s)"
| "str_lower _ = Null"

fun str_strip :: "cell \<Rightarrow> cell" where
  "str_strip (Str s) = Str (py_strip s)"
| "str_strip _ = Null"

text \<open>
  \<^verbatim>\<open>if 'sex' in nobel.columns: nobel['sex'] = nobel['sex'].str.lower().fillna('unknown')\<close>
\<close>

definition sex_col :: "cell list \<Rightarrow> column" where
  "sex_col cs = ObjCol (fillna (Str ''unknown'') (map str_lower cs))"

definition normalize_sex :: "frame \<Rightarrow> error + frame" where
  "normalize_sex df =
     (case map_of df ''sex'' of
        None \<Rightarrow> Inr df
      | Some c \<Rightarrow> bind_err (str_accessor c) (\<lambda>cs. Inr (AList.update ''sex'' (sex_col cs) df)))"

text \<open>
  \<^verbatim>\<open>+\<close> on two values of a Series: strings concatenate, a number and a string raise
  TypeError, a null stays null.
\<close>

fun str_add :: "cell \<Rightarrow> cell \<Rightarrow> error + cell" where
  "str_add (Str a) (Str b) = Inr (Str (a @ b))"
| "str_add Null _ = Inr Null"
| "str_add _ Null = Inr Null"
| "str_add _ _ = Inl TypeError"

text \<open>
  \<^verbatim>\<open>nobel[g].fillna('') + ' ' + nobel[f].fillna('')\<close>, evaluated from the left.
\<close>

definition combine_names :: "column \<Rightarrow> column \<Rightarrow> error + column" where
  "combine_names g f =
     bind_err (sequence_err (map (\<lambda>a. str_add a (Str '' '')) (fillna (Str '''') (cells g)))) (\<lambda>gs.
     bind_err (sequence_err (map (\<lambda>(a, b). str_add a b) (zip gs (fillna (Str '''') (cells f))))) (\<lambda>ns.
       Inr (ObjCol ns)))"

definition synthesize_name :: "frame \<Rightarrow> error + frame" where
  "synthesize_name df =
     (case (map_of df ''givenName'', map_of df ''familyName'') of
        (Some g, Some f) \<Rightarrow>
          bind_err (combine_names g f) (\<lambda>c. Inr (AList.update ''full_name'' c df))
      | _ \<Rightarrow>
         (case (map_of df ''firstname'', map_of df ''surname'') of
            (Some g, Some f) \<Rightarrow>
              bind_err (combine_names g f) (\<lambda>c. Inr (AList.update ''full_name'' c df))
          | _ \<Rightarrow> Inr df))"

text \<open>\<^verbatim>\<open>nobel['full_name'] = nobel['full_name'].str.strip()\<close>\<close>

definition strip_name :: "frame \<Rightarrow> error + frame" where
  "strip_name df =
     (case map_of df ''full_name'' of
        None \<Rightarrow> Inl KeyError
      | Some c \<Rightarrow>
          bind_err (str_accessor c) (\<lambda>cs.
            Inr (AList.update ''full_name'' (ObjCol (map str_strip cs)) df)))"

text \<open>Lines 52 to 63: the table as it reaches the essential-column check.\<close>

definition normalize :: "frame \<Rightarrow> error + frame" where
  "normalize df =
     bind_err (normalize_sex (map_columns df)) (\<lambda>d1.
     bind_err (synthesize_name d1) (\<lambda>d2.
       strip_name d2))"

section \<open>Essential-column check\<close>

definition essential :: "string list" where
  "essential = [''year'', ''full_name'', ''sex'', ''birth_country'', ''category'']"

definition isna_all :: "column \<Rightarrow> bool" where
  "isna_all c = list_all isna (cells c)"

text \<open>\<^verbatim>\<open>[c for c in essential if c not in nobel.columns or nobel[c].isna().all()]\<close>\<close>

definition missing_cols :: "frame \<Rightarrow> string list" where
  "missing_cols df =
     filter (\<lambda>c. case map_of df c of None \<Rightarrow> True | Some col \<Rightarrow> isna_all col) essential"

definition check_essential :: "frame \<Rightarrow> error + frame" where
  "check_essential df =
     (if missing_cols df \<noteq> [] then Inl (ValueError (missing_cols df)) else Inr df)"

section \<open>Preprocessing: decade and birth country\<close>

text \<open>
  \<^verbatim>\<open>(year // 10) * 10\<close>. \<^verbatim>\<open>//\<close> rounds down, as \<open>div\<close> on \<open>int\<close> does. On Python's own
  integers (the values of an object column) and on the whole numbers of a float64 column
  the result is \<open>decade_of\<close>. On an int64 column both operations are those of 64-bit
  two's complement: the quotient is in range, the product by 10 wraps around.
\<close>

definition decade_of :: "int \<Rightarrow> int" where
  "decade_of y = (y div 10) * 10"

definition wrap64 :: "int \<Rightarrow> int" where
  "wrap64 x = (x + 9223372036854775808) mod 18446744073709551616 - 9223372036854775808"

definition decade_int64 :: "int \<Rightarrow> int" where
  "decade_int64 y = wrap64 (wrap64 (y div 10) * 10)"

fun is_float_col :: "column \<Rightarrow> bool" where
  "is_float_col (NumCol xs) = (None \<in> set xs)"
| "is_float_col (ObjCol cs) = False"

fun is_int_col :: "column \<Rightarrow> bool" where
  "is_int_col (NumCol xs) = (None \<notin> set xs)"
| "is_int_col (ObjCol cs) = False"

text \<open>The decade of a year, in the arithmetic of the dtype of the year column.\<close>

definition decade_op :: "column \<Rightarrow> int \<Rightarrow> int" where
  "decade_op yc = (if is_int_col yc then decade_int64 else decade_of)"

fun decade_cell :: "(int \<Rightarrow> int) \<Rightarrow> cell \<Rightarrow> error + cell" where
  "decade_cell f (Num y) = Inr (Num (f y))"
| "decade_cell f Null = Inr Null"
| "decade_cell f (Str s) = Inl TypeError"

fun decade_col :: "column \<Rightarrow> error + column" where
  "decade_col (NumCol xs) = Inr (NumCol (map (map_option (decade_op (NumCol xs))) xs))"
| "decade_col (ObjCol cs) =
     bind_err (sequence_err (map (decade_cell decade_of) cs)) (\<lambda>ds. Inr (ObjCol ds))"

text \<open>Decimal text of a number, as \<^verbatim>\<open>str\<close> gives it for an int; a float64 value gets \<^verbatim>\<open>.0\<close>.\<close>

fun digits :: "nat \<Rightarrow> string" where
  "digits n =
     (if n < 10 then [char_of (48 + n)] else digits (n div 10) @ [char_of (48 + n mod 10)])"

declare digits.simps [simp del]

definition str_of_int :: "int \<Rightarrow> string" where
  "str_of_int i = (if i < 0 then CHR ''-'' # digits (nat (- i)) else digits (nat i))"

fun astype_str :: "bool \<Rightarrow> cell \<Rightarrow> cell" where
  "astype_str fl (Str s) = Str s"
| "astype_str fl (Num n) = Str (if fl then str_of_int n @ ''.0'' else str_of_int n)"
| "astype_str fl Null = Str ''nan''"

text \<open>\<^verbatim>\<open>nobel['birth_country'].fillna('Unknown').astype(str)\<close>\<close>

definition country_col :: "column \<Rightarrow> column" where
  "country_col c = ObjCol (map (astype_str (is_float_col c)) (fillna (Str ''Unknown'') (cells c)))"

record rec =
  year :: cell
  full_name :: cell
  sex :: cell
  birth_country :: cell
  category :: cell
  decade :: cell

definition mk_rec :: "cell \<times> cell \<times> cell \<times> cell \<times> cell \<times> cell \<Rightarrow> rec" where
  "mk_rec t = (case t of (y, n, s, b, c, d) \<Rightarrow>
     \<lparr>year = y, full_name = n, sex = s, birth_country = b, category = c, decade = d\<rparr>)"

definition mk_rows ::
  "cell list \<Rightarrow> cell list \<Rightarrow> cell list \<Rightarrow> cell list \<Rightarrow> cell list \<Rightarrow> cell list \<Rightarrow> rec list" where
  "mk_rows ys ns ss bs cs ds = map mk_rec (zip ys (zip ns (zip ss (zip bs (zip cs ds)))))"

definition get_col :: "frame \<Rightarrow> string \<Rightarrow> error + column" where
  "get_col df k = (case map_of df k of None \<Rightarrow> Inl KeyError | Some c \<Rightarrow> Inr c)"

text \<open>Lines 74 and 75, and the rows of the table the queries read.\<close>

definition preprocess :: "frame \<Rightarrow> error + rec list" where
  "preprocess df =
     bind_err (get_col df ''year'') (\<lambda>yc.
     bind_err (decade_col yc) (\<lambda>dc.
     bind_err (get_col df ''birth_country'') (\<lambda>bc.
     bind_err (get_col df ''full_name'') (\<lambda>nc.
     bind_err (get_col df ''sex'') (\<lambda>sc.
     bind_err (get_col df ''category'') (\<lambda>cc.
       Inr (mk_rows (cells yc) (cells nc) (cells sc) (cells (country_col bc)) (cells cc) (cells dc))))))))"

definition load_table :: "frame \<Rightarrow> error + rec list" where
  "load_table df = bind_err (normalize df) (\<lambda>nf. bind_err (check_essential nf) preprocess)"

section \<open>Series helpers\<close>

text \<open>\<^verbatim>\<open>Series.unique()\<close>: the distinct values in order of first appearance, a null included.\<close>

primrec unique :: "'a list \<Rightarrow> 'a list" where
  "unique [] = []"
| "unique (x # xs) = x # filter (\<lambda>y. y \<noteq> x) (unique xs)"

text \<open>
  Sort keys. Group keys and sorted values are numbers or strings; numbers are compared as
  numbers and strings by code point.
\<close>

fun cell_key :: "cell \<Rightarrow> nat \<times> int \<times> string" where
  "cell_key (Num n) = (0, n, [])"
| "cell_key (Str s) = (1, 0, s)"
| "cell_key Null = (2, 0, [])"

definition pair_key :: "int \<times> cell \<Rightarrow> int \<times> nat \<times> int \<times> string" where
  "pair_key k = (fst k, cell_key (snd k))"

text \<open>
  \<^verbatim>\<open>Series.value_counts()\<close>: the count of every non-null value, most frequent first.
  pandas does not fix the order of values with equal counts; values with equal counts
  are kept in order of first appearance here, and no theorem below depends on it.
\<close>

definition value_counts :: "cell list \<Rightarrow> (cell \<times> nat) list" where
  "value_counts cs =
     (let vs = filter (\<lambda>c. \<not> isna c) cs
      in sort_key (\<lambda>vn. - int (snd vn)) (map (\<lambda>v. (v, count_list vs v)) (unique vs)))"

text \<open>\<^verbatim>\<open>Series.idxmax()\<close>: the label of the first largest value; it raises on an empty Series.\<close>

fun argmax_from :: "'k \<times> 'v::linorder \<Rightarrow> ('k \<times> 'v) list \<Rightarrow> 'k \<times> 'v" where
  "argmax_from best [] = best"
| "argmax_from best (kv # rest) = argmax_from (if snd best < snd kv then kv else best) rest"

definition idxmax :: "('k \<times> 'v::linorder) list \<Rightarrow> error + 'k" where
  "idxmax xs = (case xs of [] \<Rightarrow> Inl ArgmaxOfEmpty | kv # rest \<Rightarrow> Inr (fst (argmax_from kv rest)))"

text \<open>
  \<^verbatim>\<open>groupby(keys).size()\<close>: rows with a null key are dropped (the key lists below hold
  the non-null keys only); the groups come sorted by key.
\<close>

definition groupby_size :: "('k \<Rightarrow> 'o::linorder) \<Rightarrow> 'k list \<Rightarrow> ('k \<times> nat) list" where
  "groupby_size kf ks = map (\<lambda>k. (k, count_list ks k)) (sort_key kf (unique ks))"

text \<open>
  \<^verbatim>\<open>a / b\<close> on two Series: the labels of both, sorted; NaN (\<open>None\<close>) where a label is
  missing on one side. The quotient of two counts is a float in the source and an exact
  rational here: two different quotients of counts below \<open>2^26\<close> differ by more than
  \<open>2^-52\<close>, so rounding to a float keeps their order. A group size is never zero.
\<close>

definition series_div ::
  "('k \<Rightarrow> 'o::linorder) \<Rightarrow> ('k \<times> nat) list \<Rightarrow> ('k \<times> nat) list \<Rightarrow> ('k \<times> rat option) list" where
  "series_div kf a b =
     map (\<lambda>k. (k, case (map_of a k, map_of b k) of
                    (Some x, Some y) \<Rightarrow> Some (of_nat x / of_nat y)
                  | _ \<Rightarrow> None))
         (sort_key kf (unique (map fst a @ map fst b)))"

definition fillna0 :: "('k \<times> rat option) list \<Rightarrow> ('k \<times> rat) list" where
  "fillna0 s = map (\<lambda>kv. (fst kv, case snd kv of None \<Rightarrow> 0 | Some v \<Rightarrow> v)) s"

fun num_of :: "cell \<Rightarrow> int option" where
  "num_of (Num n) = Some n"
| "num_of _ = None"

definition decade_keys :: "rec list \<Rightarrow> int list" where
  "decade_keys rows = List.map_filter (\<lambda>r. num_of (decade r)) rows"

definition pair_keys :: "rec list \<Rightarrow> (int \<times> cell) list" where
  "pair_keys rows =
     List.map_filter (\<lambda>r. case num_of (decade r) of
                              None \<Rightarrow> None
                            | Some d \<Rightarrow> if isna (category r) then None else Some (d, category r)) rows"

section \<open>Question 1: most common gender and birth country\<close>

definition top_value :: "cell list \<Rightarrow> error + cell" where
  "top_value cs = idxmax (value_counts cs)"

section \<open>Question 2: USA-born ratio by decade\<close>

text \<open>
  \<^verbatim>\<open>str.contains(pat, case=False, na=False)\<close> searches the regular expression \<open>pat\<close>
  (\<^verbatim>\<open>regex=True\<close> is the default). The pattern of the script uses two operators only:
  \<^verbatim>\<open>|\<close> separates alternatives and \<^verbatim>\<open>.\<close> matches any character but a newline.
\<close>

datatype atom = Lit char | AnyChar

fun split_on :: "char \<Rightarrow> string \<Rightarrow> string list" where
  "split_on d [] = [[]]"
| "split_on d (c # cs) =
     (if c = d then [] # split_on d cs
      else (case split_on d cs of w # ws \<Rightarrow> (c # w) # ws | [] \<Rightarrow> [[c]]))"

definition compile_regex :: "string \<Rightarrow> atom list list" where
  "compile_regex pat =
     map (map (\<lambda>c. if c = CHR ''.'' then AnyChar else Lit c)) (split_on (CHR ''|'') pat)"

fun atom_match :: "atom \<Rightarrow> char \<Rightarrow> bool" where
  "atom_match AnyChar c = (c \<noteq> CHR 0x0A)"
| "atom_match (Lit p) c = (lower_char p = lower_char c)"

fun match_here :: "atom list \<Rightarrow> string \<Rightarrow> bool" where
  "match_here [] s = True"
| "match_here (a # as) [] = False"
| "match_here (a # as) (c # cs) = (atom_match a c \<and> match_here as cs)"

fun re_search :: "atom list list \<Rightarrow> string \<Rightarrow> bool" where
  "re_search alts [] = list_ex (\<lambda>alt. match_here alt []) alts"
| "re_search alts (c # cs) = (list_ex (\<lambda>alt. match_here alt (c # cs)) alts \<or> re_search alts cs)"

definition usa_pattern :: string where
  "usa_pattern = ''United States|USA|America|U.S.A.''"

fun usa_mask :: "cell \<Rightarrow> bool" where
  "usa_mask (Str s) = re_search (compile_regex usa_pattern) s"
| "usa_mask _ = False"

definition usa_winners :: "rec list \<Rightarrow> rec list" where
  "usa_winners rows = filter (\<lambda>r. usa_mask (birth_country r)) rows"

definition usa_per_decade :: "rec list \<Rightarrow> (int \<times> nat) list" where
  "usa_per_decade rows = groupby_size id (decade_keys (usa_winners rows))"

definition total_per_decade :: "rec list \<Rightarrow> (int \<times> nat) list" where
  "total_per_decade rows = groupby_size id (decade_keys rows)"

definition usa_ratio_of :: "rec list \<Rightarrow> (int \<times> rat) list" where
  "usa_ratio_of rows = fillna0 (series_div id (usa_per_decade rows) (total_per_decade rows))"

text \<open>
  Lines 118 to 129, the bar plot: \<^verbatim>\<open>ratio_series = usa_ratio[usa_ratio.index >= 1900]\<close>
  and \<^verbatim>\<open>ratio_series.plot(kind='bar')\<close>. The plot of a Series without values raises
  IndexError (there is no first bar to put the axis limits at).
\<close>

definition ratio_series :: "(int \<times> rat) list \<Rightarrow> (int \<times> rat) list" where
  "ratio_series ratio = filter (\<lambda>kv. 1900 \<le> fst kv) ratio"

definition bar_plot :: "(int \<times> rat) list \<Rightarrow> error + unit" where
  "bar_plot s = (if length s = 0 then Inl IndexError else Inr ())"

text \<open>\<open>None\<close> is \<^verbatim>\<open>max_decade_usa = None\<close>: the query is skipped and no ratio is computed.\<close>

definition usa_query :: "rec list \<Rightarrow> error + ((int \<times> rat) list \<times> int) option" where
  "usa_query rows =
     (if length (usa_winners rows) = 0 then Inr None
      else bind_err (idxmax (usa_ratio_of rows)) (\<lambda>d.
           bind_err (bar_plot (ratio_series (usa_ratio_of rows))) (\<lambda>_.
             Inr (Some (usa_ratio_of rows, d)))))"

section \<open>Question 3: female proportion by decade and category\<close>

definition female_winners :: "rec list \<Rightarrow> rec list" where
  "female_winners rows = filter (\<lambda>r. sex r = Str ''female'') rows"

record matrix =
  m_index :: "cell list"
  m_columns :: "cell list"
  m_data :: "((cell \<times> cell) \<times> rat) list"

text \<open>
  \<^verbatim>\<open>pd.DataFrame(columns=..., index=...).fillna(0)\<close>: one zero for every row label and
  column label.
\<close>

definition zeros_matrix :: "cell list \<Rightarrow> cell list \<Rightarrow> matrix" where
  "zeros_matrix idx cols =
     \<lparr>m_index = idx, m_columns = cols,
      m_data = concat (map (\<lambda>d. map (\<lambda>c. ((d, c), 0)) cols) idx)\<rparr>"

text \<open>
  \<^verbatim>\<open>prop.unstack().fillna(0)\<close>: the decades of the Series become the row labels, its
  categories the column labels, both sorted; a pair the Series does not hold is NaN after
  \<^verbatim>\<open>unstack\<close> and 0 after \<^verbatim>\<open>fillna(0)\<close>.
\<close>

definition unstack_fillna0 :: "((int \<times> cell) \<times> rat) list \<Rightarrow> matrix" where
  "unstack_fillna0 p =
     (let idx = sort_key id (unique (map (\<lambda>kv. fst (fst kv)) p));
          cols = sort_key cell_key (unique (map (\<lambda>kv. snd (fst kv)) p))
      in \<lparr>m_index = map Num idx, m_columns = cols,
          m_data = concat (map (\<lambda>d. map (\<lambda>c. ((Num d, c),
                      (case map_of p (d, c) of None \<Rightarrow> 0 | Some v \<Rightarrow> v))) cols) idx)\<rparr>)"

definition female_group :: "rec list \<Rightarrow> ((int \<times> cell) \<times> nat) list" where
  "female_group rows = groupby_size pair_key (pair_keys (female_winners rows))"

definition total_group :: "rec list \<Rightarrow> ((int \<times> cell) \<times> nat) list" where
  "total_group rows = groupby_size pair_key (pair_keys rows)"

definition prop_of :: "rec list \<Rightarrow> ((int \<times> cell) \<times> rat) list" where
  "prop_of rows = fillna0 (series_div pair_key (female_group rows) (total_group rows))"

text \<open>The result is \<^verbatim>\<open>(max_female_dict, prop, prop_df)\<close>; the dict has one entry.\<close>

definition female_query ::
  "rec list \<Rightarrow> error + ((int \<times> cell) \<times> ((int \<times> cell) \<times> rat) list \<times> matrix)" where
  "female_query rows =
     (if length (female_winners rows) = 0
      then Inr ((1900, Str ''Unknown''), [],
                zeros_matrix (unique (map decade rows)) (unique (map category rows)))
      else bind_err (if length (prop_of rows) = 0 then Inr (1900, Str ''Unknown'')
                     else idxmax (prop_of rows)) (\<lambda>d.
             Inr (d, prop_of rows, unstack_fillna0 (prop_of rows))))"

section \<open>Question 4: first woman\<close>

text \<open>
  \<^verbatim>\<open>sort_values('year')\<close> puts a null year last. Rows with equal years are kept in
  dataset order here.
\<close>

fun year_key :: "cell \<Rightarrow> nat \<times> int" where
  "year_key (Num y) = (0, y)"
| "year_key _ = (1, 0)"

definition first_woman :: "rec list \<Rightarrow> cell \<times> cell" where
  "first_woman rows =
     (if length (female_winners rows) > 0
      then (let first = hd (sort_key (\<lambda>r. year_key (year r)) (female_winners rows))
            in (full_name first, category first))
      else (Str ''Unknown'', Str ''Unknown''))"

section \<open>Question 5: repeat winners\<close>

definition repeat_counts :: "rec list \<Rightarrow> (cell \<times> nat) list" where
  "repeat_counts rows = value_counts (map full_name rows)"

definition repeat_list_of :: "rec list \<Rightarrow> cell list" where
  "repeat_list_of rows = map fst (filter (\<lambda>vn. snd vn > 1) (repeat_counts rows))"

definition wins_of :: "rec list \<Rightarrow> cell \<Rightarrow> (cell \<times> nat) list \<Rightarrow> error + nat" where
  "wins_of rows name rc = (case map_of rc name of None \<Rightarrow> Inl KeyError | Some n \<Rightarrow> Inr n)"

definition cats_of :: "rec list \<Rightarrow> cell \<Rightarrow> cell list" where
  "cats_of rows name = unique (map category (filter (\<lambda>r. full_name r = name) rows))"

text \<open>
  \<^verbatim>\<open>sorted(...)\<close> of the years of one winner. For numbers it is the ascending stable
  sort. What Python returns for a list that holds NaN depends on the runs its sort finds;
  the embedding puts a null last, and the theorems on \<open>years_of\<close> are about winners whose
  years are all present.
\<close>

definition years_of :: "rec list \<Rightarrow> cell \<Rightarrow> cell list" where
  "years_of rows name = sort_key cell_key (map year (filter (\<lambda>r. full_name r = name) rows))"

text \<open>\<^verbatim>\<open>', '.join(cats)\<close> raises TypeError on an item that is not a string.\<close>

fun py_join :: "string \<Rightarrow> cell list \<Rightarrow> error + string" where
  "py_join sep [] = Inr []"
| "py_join sep [Str s] = Inr s"
| "py_join sep (Str s # c # cs) = bind_err (py_join sep (c # cs)) (\<lambda>t. Inr (s @ sep @ t))"
| "py_join sep (_ # cs) = Inl TypeError"

text \<open>One pass of the \<^verbatim>\<open>for name in repeat_list\<close> loop: name, wins, cats, years and the joined text.\<close>

definition repeat_entry ::
  "rec list \<Rightarrow> cell \<Rightarrow> error + (cell \<times> nat \<times> cell list \<times> cell list \<times> string)" where
  "repeat_entry rows name =
     bind_err (wins_of rows name (repeat_counts rows)) (\<lambda>wins.
     bind_err (py_join '', '' (cats_of rows name)) (\<lambda>joined.
       Inr (name, wins, cats_of rows name, years_of rows name, joined)))"

definition repeat_report ::
  "rec list \<Rightarrow> error + (cell \<times> nat \<times> cell list \<times> cell list \<times> string) list" where
  "repeat_report rows = sequence_err (map (repeat_entry rows) (repeat_list_of rows))"

section \<open>The whole script\<close>

record results =
  nobel :: "rec list"
  top_gender :: cell
  top_country :: cell
  usa_ratio :: "(int \<times> rat) list option"
  max_decade_usa :: "int option"
  max_female_dict :: "int \<times> cell"
  prop_series :: "((int \<times> cell) \<times> rat) list"
  prop_df :: matrix
  first_woman_name :: cell
  first_woman_category :: cell
  repeat_list :: "cell list"
  repeat_lines :: "(cell \<times> nat \<times> cell list \<times> cell list \<times> string) list"

text \<open>
  The script names no release of pandas. The releases 2 and 3 differ, for the steps of
  this script, at line 139: \<^verbatim>\<open>pd.DataFrame(columns=..., index=...)\<close> is a frame of NaN
  of dtype object, and \<^verbatim>\<open>fillna(0)\<close> turns it into a frame of integers in pandas 2 (it
  downcasts) and leaves it of dtype object in pandas 3. The release is a parameter of
  the run.
\<close>

datatype pandas = Pandas2 | Pandas3

text \<open>
  Lines 154 to 162, the heat map \<^verbatim>\<open>sns.heatmap(prop_df, annot=True, fmt='.2f')\<close>. It
  takes the least and the largest value of the frame for its colour scale, which
  raises (ValueError, zero-size array) on a frame without rows or without columns, and
  it raises TypeError when it draws a frame of dtype object. \<open>zeros\<close> tells that the
  frame is the one of line 139.
\<close>

definition heatmap :: "pandas \<Rightarrow> bool \<Rightarrow> matrix \<Rightarrow> error + unit" where
  "heatmap v zeros m =
     (if m_index m = [] \<or> m_columns m = [] then Inl ZeroSizeReduction
      else if zeros \<and> v = Pandas3 then Inl TypeError
      else Inr ())"

text \<open>
  Lines 82 to 183 in the order of the script: the two most common values, the USA query
  with its bar plot, the female query, the heat map, the first woman, the repeat
  winners. The count plot of lines 89 to 96 draws one bar for every value of \<open>sex\<close> and
  is left out: it changes nothing and does not raise.
\<close>

definition aggregate :: "pandas \<Rightarrow> rec list \<Rightarrow> error + results" where
  "aggregate v rows =
     bind_err (top_value (map sex rows)) (\<lambda>tg.
     bind_err (top_value (map birth_country rows)) (\<lambda>tc.
     bind_err (usa_query rows) (\<lambda>uq.
     bind_err (female_query rows) (\<lambda>fq.
     bind_err (heatmap v (length (female_winners rows) = 0) (snd (snd fq))) (\<lambda>_.
     bind_err (repeat_report rows) (\<lambda>rr.
       Inr \<lparr>nobel = rows, top_gender = tg, top_country = tc,
            usa_ratio = map_option fst uq, max_decade_usa = map_option snd uq,
            max_female_dict = fst fq, prop_series = fst (snd fq), prop_df = snd (snd fq),
            first_woman_name = fst (first_woman rows),
            first_woman_category = snd (first_woman rows),
            repeat_list = repeat_list_of rows, repeat_lines = rr\<rparr>))))))"

definition pipeline :: "pandas \<Rightarrow> frame \<Rightarrow> error + results" where
  "pipeline v df = bind_err (load_table df) (aggregate v)"

section \<open>Derived notions and example tables\<close>

text \<open>
  The column \<^verbatim>\<open>nobel['full_name']\<close> holds when line 63 strips it: the synthesized
  name if one of the two pairs of name columns exists, else the column mapped by
  \<^verbatim>\<open>map_columns\<close>.
\<close>

definition name_source :: "frame \<Rightarrow> error + column" where
  "name_source df =
     (case (map_of df ''givenName'', map_of df ''familyName'') of
        (Some g, Some f) \<Rightarrow> combine_names g f
      | _ \<Rightarrow>
         (case (map_of df ''firstname'', map_of df ''surname'') of
            (Some g, Some f) \<Rightarrow> combine_names g f
          | _ \<Rightarrow> Inr (mapped_col df (aliases ''full_name''))))"

definition example_frame :: frame where
  "example_frame =
     [(''awardYear'', NumCol [Some 1905, Some 1999, Some 1911, Some 1990]),
      (''name'', ObjCol [Str ''  Marie Curie '', Str ''A'', Str ''Marie Curie'', Str ''A'']),
      (''gender'', ObjCol [Str ''Female'', Null, Str ''female'', Str ''Male'']),
      (''bornCountry'', ObjCol [Str ''Poland'', Null, Str ''Russian Empire'', Str ''USA'']),
      (''category'', ObjCol [Str ''Physics'', Str ''Chemistry'', Str ''Chemistry'', Str ''Peace''])]"

definition example_rows :: "rec list" where
  "example_rows =
     [\<lparr>year = Num 1905, full_name = Str ''Marie Curie'', sex = Str ''female'',
       birth_country = Str ''Poland'', category = Str ''Physics'', decade = Num 1900\<rparr>,
      \<lparr>year = Num 1999, full_name = Str ''A'', sex = Str ''unknown'',
       birth_country = Str ''Unknown'', category = Str ''Chemistry'', decade = Num 1990\<rparr>,
      \<lparr>year = Num 1911, full_name = Str ''Marie Curie'', sex = Str ''female'',
       birth_country = Str ''Russian Empire'', category = Str ''Chemistry'', decade = Num 1910\<rparr>,
      \<lparr>year = Num 1990, full_name = Str ''A'', sex = Str ''male'',
       birth_country = Str ''USA'', category = Str ''Peace'', decade = Num 1990\<rparr>]"


text \<open>
  USA-born as the specification words it: \<open>birth_country\<close> contains one of four literal
  texts, letter case ignored.
\<close>

definition usa_literals :: "string list" where
  "usa_literals = [''United States'', ''USA'', ''America'', ''U.S.A.'']"

definition contains_ci :: "string \<Rightarrow> string \<Rightarrow> bool" where
  "contains_ci lit s = sublist (py_lower lit) (py_lower s)"

fun spec_usa_born :: "cell \<Rightarrow> bool" where
  "spec_usa_born (Str s) = list_ex (\<lambda>lit. contains_ci lit s) usa_literals"
| "spec_usa_born _ = False"

definition russian_frame :: frame where
  "russian_frame =
     [(''year'', NumCol [Some 1904]),
      (''full_name'', ObjCol [Str ''Ivan Pavlov'']),
      (''sex'', ObjCol [Str ''male'']),
      (''birth_country'', ObjCol [Str ''Russian Empire'']),
      (''category'', ObjCol [Str ''Medicine''])]"

text \<open>
  The pair of name columns line 59 to 62 combine, if any: \<^verbatim>\<open>givenName\<close> and
  \<^verbatim>\<open>familyName\<close> first, else \<^verbatim>\<open>firstname\<close> and \<^verbatim>\<open>surname\<close>.
\<close>

definition name_pair :: "frame \<Rightarrow> (column \<times> column) option" where
  "name_pair df =
     (case (map_of df ''givenName'', map_of df ''familyName'') of
        (Some g, Some f) \<Rightarrow> Some (g, f)
      | _ \<Rightarrow>
         (case (map_of df ''firstname'', map_of df ''surname'') of
            (Some g, Some f) \<Rightarrow> Some (g, f)
          | _ \<Rightarrow> None))"

text \<open>One half of a name as text: a missing half is the empty string.\<close>

fun half :: "cell \<Rightarrow> string" where
  "half (Str s) = s"
| "half _ = []"

definition override_frame :: frame where
  "override_frame =
     [(''year'', NumCol [Some 1903]),
      (''full_name'', ObjCol [Str ''Marie Curie'']),
      (''givenName'', ObjCol [Str ''Maria'']),
      (''familyName'', ObjCol [Str ''Sklodowska '']),
      (''sex'', ObjCol [Str ''Female'']),
      (''birth_country'', ObjCol [Str ''Poland'']),
      (''category'', ObjCol [Str ''Physics''])]"

definition no_category_frame :: frame where
  "no_category_frame =
     [(''awardYear'', NumCol [Some 1905, Some 1999]),
      (''name'', ObjCol [Str ''Marie Curie'', Str ''A'']),
      (''gender'', ObjCol [Str ''Female'', Null]),
      (''bornCountry'', ObjCol [Str ''Poland'', Null])]"

definition no_name_frame :: frame where
  "no_name_frame =
     [(''awardYear'', NumCol [Some 1905, Some 1999]),
      (''gender'', ObjCol [Str ''Female'', Null]),
      (''bornCountry'', ObjCol [Str ''Poland'', Null]),
      (''category'', ObjCol [Str ''Physics'', Str ''Chemistry''])]"

definition no_sex_frame :: frame where
  "no_sex_frame =
     [(''awardYear'', NumCol [Some 1905, Some 1999]),
      (''name'', ObjCol [Str ''Marie Curie'', Str ''A'']),
      (''bornCountry'', ObjCol [Str ''Poland'', Null]),
      (''category'', ObjCol [Str ''Physics'', Str ''Chemistry''])]"

text \<open>
  The counts the specification names: the USA-born records of a decade, by the
  specification's rule \<open>spec_usa_born\<close>, and all records of a decade.
\<close>

definition usa_count :: "rec list \<Rightarrow> int \<Rightarrow> nat" where
  "usa_count rows d =
     length (filter (\<lambda>r. decade r = Num d \<and> spec_usa_born (birth_country r)) rows)"

definition total_count :: "rec list \<Rightarrow> int \<Rightarrow> nat" where
  "total_count rows d = length (filter (\<lambda>r. decade r = Num d) rows)"

text \<open>The count the script divides: the records of a decade that the mask of line 100 selects.\<close>

definition mask_count :: "rec list \<Rightarrow> int \<Rightarrow> nat" where
  "mask_count rows d = length (filter (\<lambda>r. decade r = Num d \<and> usa_mask (birth_country r)) rows)"

text \<open>
  The counts the specification names: the female records and all records of a pair of
  decade and category.
\<close>

definition female_pair_count :: "rec list \<Rightarrow> int \<Rightarrow> cell \<Rightarrow> nat" where
  "female_pair_count rows d c =
     length (filter (\<lambda>r. decade r = Num d \<and> category r = c \<and> sex r = Str ''female'') rows)"

definition total_pair_count :: "rec list \<Rightarrow> int \<Rightarrow> cell \<Rightarrow> nat" where
  "total_pair_count rows d c = length (filter (\<lambda>r. decade r = Num d \<and> category r = c) rows)"

text \<open>
  The number of records that carry a name, and the position at which a value first
  occurs in a list.
\<close>

definition occurrences :: "rec list \<Rightarrow> cell \<Rightarrow> nat" where
  "occurrences rows name = length (filter (\<lambda>r. full_name r = name) rows)"

definition first_pos :: "'a list \<Rightarrow> 'a \<Rightarrow> nat" where
  "first_pos xs a = length (takeWhile (\<lambda>y. y \<noteq> a) xs)"

text \<open>
  The scenario of the specification: winner A in 1990 (Physics) and 2000 (Chemistry),
  winner B once. In \<open>repeat_frame_unsorted\<close> the later prize of A comes first.
\<close>

definition repeat_frame :: frame where
  "repeat_frame =
     [(''year'', NumCol [Some 1990, Some 1995, Some 2000]),
      (''full_name'', ObjCol [Str ''A'', Str ''B'', Str ''A'']),
      (''sex'', ObjCol [Str ''male'', Str ''female'', Str ''male'']),
      (''birth_country'', ObjCol [Str ''France'', Str ''Japan'', Str ''France'']),
      (''category'', ObjCol [Str ''Physics'', Str ''Peace'', Str ''Chemistry''])]"

definition repeat_frame_unsorted :: frame where
  "repeat_frame_unsorted =
     [(''year'', NumCol [Some 2000, Some 1995, Some 1990]),
      (''full_name'', ObjCol [Str ''A'', Str ''B'', Str ''A'']),
      (''sex'', ObjCol [Str ''male'', Str ''female'', Str ''male'']),
      (''birth_country'', ObjCol [Str ''France'', Str ''Japan'', Str ''France'']),
      (''category'', ObjCol [Str ''Physics'', Str ''Peace'', Str ''Chemistry''])]"

definition repeat_rows_unsorted :: "rec list" where
  "repeat_rows_unsorted =
     [\<lparr>year = Num 2000, full_name = Str ''A'', sex = Str ''male'',
       birth_country = Str ''France'', category = Str ''Physics'', decade = Num 2000\<rparr>,
      \<lparr>year = Num 1995, full_name = Str ''B'', sex = Str ''female'',
       birth_country = Str ''Japan'', category = Str ''Peace'', decade = Num 1990\<rparr>,
      \<lparr>year = Num 1990, full_name = Str ''A'', sex = Str ''male'',
       birth_country = Str ''France'', category = Str ''Chemistry'', decade = Num 1990\<rparr>]"

text \<open>
  The years at which the arithmetic of the year column gives \<open>floor(year / 10) * 10\<close>:
  in an int64 column every year from \<open>-9223372036854775800\<close> on (the eight smaller ones
  have a quotient whose product by 10 is below \<open>-2^63\<close>), in a float64 column the years
  of magnitude up to \<open>2^53\<close>, in an object column (Python's integers) every year.
\<close>

definition exact_year :: "column \<Rightarrow> int \<Rightarrow> bool" where
  "exact_year yc y =
     (if is_int_col yc then - 9223372036854775800 \<le> y \<and> y \<le> 9223372036854775807
      else if is_float_col yc then - 9007199254740992 \<le> y \<and> y \<le> 9007199254740992
      else True)"

text \<open>A table whose one year is the least int64.\<close>

definition min_year_frame :: frame where
  "min_year_frame =
     [(''year'', NumCol [Some (- 9223372036854775808)]),
      (''full_name'', ObjCol [Str ''A'']),
      (''sex'', ObjCol [Str ''male'']),
      (''birth_country'', ObjCol [Str ''France'']),
      (''category'', ObjCol [Str ''Peace''])]"

text \<open>
  A table whose \<open>sex\<close> column is empty in every row (\<^verbatim>\<open>pd.read_csv\<close> reads it as
  float64), a table whose one record is USA-born and of the year 1895, the same table
  without a \<open>sex\<close> column, and a table in which a repeat winner has an empty category.
\<close>

definition blank_sex_frame :: frame where
  "blank_sex_frame =
     [(''year'', NumCol [Some 1905, Some 1999]),
      (''full_name'', ObjCol [Str ''A'', Str ''B'']),
      (''sex'', NumCol [None, None]),
      (''birth_country'', ObjCol [Str ''USA'', Str ''France'']),
      (''category'', ObjCol [Str ''Physics'', Str ''Peace''])]"

definition old_frame :: frame where
  "old_frame =
     [(''year'', NumCol [Some 1895]),
      (''full_name'', ObjCol [Str ''Wilhelm'']),
      (''sex'', ObjCol [Str ''male'']),
      (''birth_country'', ObjCol [Str ''USA'']),
      (''category'', ObjCol [Str ''Physics''])]"

definition old_no_sex_frame :: frame where
  "old_no_sex_frame =
     [(''year'', NumCol [Some 1895]),
      (''full_name'', ObjCol [Str ''Wilhelm'']),
      (''birth_country'', ObjCol [Str ''USA'']),
      (''category'', ObjCol [Str ''Physics''])]"

definition blank_category_frame :: frame where
  "blank_category_frame =
     [(''year'', NumCol [Some 1903, Some 1911]),
      (''full_name'', ObjCol [Str ''Marie Curie'', Str ''Marie Curie'']),
      (''sex'', ObjCol [Str ''female'', Str ''female'']),
      (''birth_country'', ObjCol [Str ''Poland'', Str ''Poland'']),
      (''category'', ObjCol [Str ''Physics'', Null])]"

text \<open>A table without USA-born and without female records.\<close>

definition quiet_frame :: frame where
  "quiet_frame =
     [(''Year'', NumCol [Some 1901, Some 1911, Some 1912]),
      (''laureate_name'', ObjCol [Str ''Wilhelm'', Str ''Henri'', Str ''Wilhelm'']),
      (''Gender'', ObjCol [Str ''Male'', Str ''male'', Null]),
      (''country'', ObjCol [Str ''Germany'', Null, Str ''France'']),
      (''discipline'', ObjCol [Str ''Physics'', Str ''Peace'', Str ''Physics''])]"

section \<open>Basic facts\<close>

lemma bind_err_Inr_iff: "bind_err m f = Inr y \<longleftrightarrow> (\<exists>x. m = Inr x \<and> f x = Inr y)"
  by (cases m) (simp_all add: bind_err_def)

lemma bind_err_Inl_iff: "bind_err m f = Inl e \<longleftrightarrow> (m = Inl e \<or> (\<exists>x. m = Inr x \<and> f x = Inl e))"
  by (cases m) (simp_all add: bind_err_def)

lemma map_of_map_columns:
  "map_of (map_columns df) =
     (map_of df)(''year'' \<mapsto> mapped_col df (aliases ''year''),
                 ''full_name'' \<mapsto> mapped_col df (aliases ''full_name''),
                 ''sex'' \<mapsto> mapped_col df (aliases ''sex''),
                 ''birth_country'' \<mapsto> mapped_col df (aliases ''birth_country''),
                 ''category'' \<mapsto> mapped_col df (aliases ''category''))"
  by (simp add: map_columns_def col_map_def map_one_def update_conv' aliases_def)

lemma normalize_sex_Inr:
  assumes "normalize_sex d = Inr d1" and "map_of d ''sex'' = Some c"
  shows "\<exists>cs. str_accessor c = Inr cs \<and> map_of d1 = (map_of d)(''sex'' \<mapsto> sex_col cs)"
  using assms by (auto simp: normalize_sex_def bind_err_Inr_iff update_conv' sex_col_def)

lemma normalize_Inr:
  assumes "normalize df = Inr nf"
  shows "\<exists>cs fn ns.
           str_accessor (mapped_col df (aliases ''sex'')) = Inr cs \<and>
           name_source df = Inr fn \<and> str_accessor fn = Inr ns \<and>
           map_of nf ''year'' = Some (mapped_col df (aliases ''year'')) \<and>
           map_of nf ''birth_country'' = Some (mapped_col df (aliases ''birth_country'')) \<and>
           map_of nf ''category'' = Some (mapped_col df (aliases ''category'')) \<and>
           map_of nf ''sex'' = Some (sex_col cs) \<and>
           map_of nf ''full_name'' = Some (ObjCol (map str_strip ns))"
proof -
  from assms obtain d1 d2 where
    a: "normalize_sex (map_columns df) = Inr d1" and
    b: "synthesize_name d1 = Inr d2" and
    c: "strip_name d2 = Inr nf"
    by (auto simp: normalize_def bind_err_Inr_iff)
  have m0: "map_of (map_columns df) ''sex'' = Some (mapped_col df (aliases ''sex''))"
    by (simp add: map_of_map_columns)
  from normalize_sex_Inr[OF a m0] obtain cs where
    cs: "str_accessor (mapped_col df (aliases ''sex'')) = Inr cs" and
    m1: "map_of d1 = (map_of (map_columns df))(''sex'' \<mapsto> sex_col cs)"
    by blast
  have k: "map_of d1 ''givenName'' = map_of df ''givenName''"
          "map_of d1 ''familyName'' = map_of df ''familyName''"
          "map_of d1 ''firstname'' = map_of df ''firstname''"
          "map_of d1 ''surname'' = map_of df ''surname''"
          "map_of d1 ''full_name'' = Some (mapped_col df (aliases ''full_name''))"
    by (simp_all add: m1 map_of_map_columns)
  have idem: "(map_of d1)(''full_name'' \<mapsto> mapped_col df (aliases ''full_name'')) = map_of d1"
    using k(5) by (rule map_upd_triv)
  from b have "\<exists>fn. name_source df = Inr fn \<and> map_of d2 = (map_of d1)(''full_name'' \<mapsto> fn)"
    unfolding synthesize_name_def name_source_def k(1-4)
    by (auto simp: bind_err_Inr_iff update_conv' idem split: option.splits)
  then obtain fn where
    fn: "name_source df = Inr fn" and
    m2: "map_of d2 = (map_of d1)(''full_name'' \<mapsto> fn)"
    by blast
  from c obtain ns where
    ns: "str_accessor fn = Inr ns" and
    m3: "map_of nf = (map_of d2)(''full_name'' \<mapsto> ObjCol (map str_strip ns))"
    by (auto simp: strip_name_def m2 bind_err_Inr_iff update_conv')
  show ?thesis
    using cs fn ns by (simp add: m3 m2 m1 map_of_map_columns)
qed

lemma load_table_Inr:
  assumes "load_table df = Inr rows"
  shows "\<exists>nf yc dc bc nc sc cc.
           normalize df = Inr nf \<and> missing_cols nf = [] \<and>
           map_of nf ''year'' = Some yc \<and> decade_col yc = Inr dc \<and>
           map_of nf ''birth_country'' = Some bc \<and>
           map_of nf ''full_name'' = Some nc \<and>
           map_of nf ''sex'' = Some sc \<and>
           map_of nf ''category'' = Some cc \<and>
           rows = mk_rows (cells yc) (cells nc) (cells sc) (cells (country_col bc)) (cells cc) (cells dc)"
  using assms
  by (auto simp: load_table_def check_essential_def preprocess_def get_col_def bind_err_Inr_iff
           split: if_splits option.splits)

lemma sequence_err_Inr: "sequence_err ms = Inr xs \<Longrightarrow> list_all2 (\<lambda>m x. m = Inr x) ms xs"
  by (induction ms arbitrary: xs) (auto split: sum.splits)

lemma decade_col_rel:
  assumes "decade_col yc = Inr dc"
  shows "list_all2 (\<lambda>y d. decade_cell (decade_op yc) y = Inr d) (cells yc) (cells dc)"
proof (cases yc)
  case (ObjCol cs)
  from assms ObjCol obtain ds where
    ds: "sequence_err (map (decade_cell decade_of) cs) = Inr ds" "dc = ObjCol ds"
    by (auto simp: bind_err_Inr_iff)
  from sequence_err_Inr[OF ds(1)] show ?thesis
    using ObjCol ds(2) by (simp add: list_all2_map1 decade_op_def)
next
  case (NumCol xs)
  have "decade_cell f (num_cell x) = Inr (num_cell (map_option f x))" for f x
    by (cases x) simp_all
  with NumCol assms show ?thesis
    by (auto simp: list_all2_map1 list_all2_map2 intro!: list_all2_all_nthI)
qed

lemma nth_mk_rows:
  assumes "i < length (mk_rows ys ns ss bs cs ds)"
  shows "mk_rows ys ns ss bs cs ds ! i = 
           \<lparr>year = ys ! i, full_name = ns ! i, sex = ss ! i, birth_country = bs ! i,
            category = cs ! i, decade = ds ! i\<rparr>"
  using assms by (simp add: mk_rows_def mk_rec_def)

lemma length_mk_rows:
  "length (mk_rows ys ns ss bs cs ds) =
     min (length ys) (min (length ns) (min (length ss) (min (length bs) (min (length cs) (length ds)))))"
  by (simp add: mk_rows_def)

lemma decade_of_floor: "decade_of y = \<lfloor>rat_of_int y / 10\<rfloor> * 10"
proof -
  have "\<lfloor>rat_of_int y / rat_of_int 10\<rfloor> = y div 10" by (rule floor_divide_of_int_eq)
  then show ?thesis by (simp add: decade_of_def)
qed

lemma load_table_example: "load_table example_frame = Inr example_rows"
  by code_simp

lemma wrap64_id:
  "- 9223372036854775808 \<le> x \<Longrightarrow> x < 9223372036854775808 \<Longrightarrow> wrap64 x = x"
  by (simp add: wrap64_def)

lemma decade_int64_exact:
  assumes "- 9223372036854775800 \<le> y" and "y \<le> 9223372036854775807"
  shows "decade_int64 y = decade_of y"
proof -
  from assms have q: "- 922337203685477580 \<le> y div 10" "y div 10 \<le> 922337203685477580"
    by simp_all
  then have "wrap64 (y div 10) = y div 10"
    by (intro wrap64_id) simp_all
  moreover from q have "wrap64 (y div 10 * 10) = y div 10 * 10"
    by (intro wrap64_id) simp_all
  ultimately show ?thesis by (simp add: decade_int64_def decade_of_def)
qed

lemma decade_op_exact: "exact_year yc y \<Longrightarrow> decade_op yc y = decade_of y"
  by (auto simp: exact_year_def decade_op_def decade_int64_exact split: if_splits)

lemma str_accessor_Inr: "str_accessor c = Inr cs \<Longrightarrow> c = ObjCol cs \<and> str_ok cs"
  by (cases c) (auto split: if_splits)

lemma lower_char_not_upper: "lower_char c \<notin> set upper_chars"
proof (cases "map_of (zip upper_chars lower_chars) c")
  case None
  then have "c \<notin> set upper_chars"
    by (subst (asm) map_of_zip_is_None) (simp_all add: upper_chars_def lower_chars_def)
  with None show ?thesis by (simp add: lower_char_def)
next
  case (Some d)
  then have "d \<in> set lower_chars"
    by (auto dest!: map_of_SomeD set_zip_rightD)
  moreover have "set lower_chars \<inter> set upper_chars = {}"
    by (simp add: upper_chars_def lower_chars_def)
  ultimately show ?thesis using Some by (auto simp: lower_char_def)
qed

lemma sex_col_cell:
  assumes "i < length cs"
  shows "cells (sex_col cs) ! i =
           (case cs ! i of Str s \<Rightarrow> Str (py_lower s) | _ \<Rightarrow> Str ''unknown'')"
  using assms by (cases "cs ! i") (simp_all add: sex_col_def fillna_def)

lemma length_sex_col: "length (cells (sex_col cs)) = length cs"
  by (simp add: sex_col_def fillna_def)

lemma country_col_cell:
  assumes "i < length (cells c)"
  shows "cells (country_col c) ! i =
           (case cells c ! i of Null \<Rightarrow> Str ''Unknown'' | x \<Rightarrow> astype_str (is_float_col c) x)"
  using assms by (cases "cells c ! i") (simp_all add: country_col_def fillna_def)

lemma length_country_col: "length (cells (country_col c)) = length (cells c)"
  by (simp add: country_col_def fillna_def)

lemma astype_str_is_str: "\<exists>b. astype_str fl x = Str b"
  by (cases x) simp_all

text \<open>The table in terms of the input: what each field of row \<open>i\<close> is.\<close>

lemma load_table_rows:
  assumes "load_table df = Inr rows"
  shows "\<exists>cs fn ns dc.
           str_accessor (mapped_col df (aliases ''sex'')) = Inr cs \<and>
           name_source df = Inr fn \<and> str_accessor fn = Inr ns \<and>
           decade_col (mapped_col df (aliases ''year'')) = Inr dc \<and>
           rows = mk_rows (cells (mapped_col df (aliases ''year''))) (map str_strip ns)
                    (cells (sex_col cs))
                    (cells (country_col (mapped_col df (aliases ''birth_country''))))
                    (cells (mapped_col df (aliases ''category''))) (cells dc)"
proof -
  from load_table_Inr[OF assms] obtain nf yc dc bc nc sc cc where
    nf: "normalize df = Inr nf" and
    cols: "map_of nf ''year'' = Some yc" "decade_col yc = Inr dc"
          "map_of nf ''birth_country'' = Some bc" "map_of nf ''full_name'' = Some nc"
          "map_of nf ''sex'' = Some sc" "map_of nf ''category'' = Some cc" and
    rows: "rows = mk_rows (cells yc) (cells nc) (cells sc) (cells (country_col bc)) (cells cc) (cells dc)"
    by blast
  from normalize_Inr[OF nf] cols rows show ?thesis by auto
qed


lemma aggregate_nobel: "aggregate v rows = Inr res \<Longrightarrow> nobel res = rows"
  by (auto simp: aggregate_def bind_err_Inr_iff)

lemma py_lower_no_upper: "c \<in> set (py_lower s) \<Longrightarrow> c \<notin> set upper_chars"
  by (auto simp: py_lower_def lower_char_not_upper)

section \<open>Claim C9: the decade\<close>

text \<open>
  Claim C9, amended. For every record of the table, \<open>decade\<close> is null where the year is
  null, and is \<open>floor(year / 10) * 10\<close> where the arithmetic of the year column is exact
  at the year: from \<open>-9223372036854775800\<close> on in an int64 column, up to the magnitude
  \<open>2^53\<close> in a float64 column, everywhere in a column of Python's integers. Year 1905
  gives 1900 and year 1999 gives 1990.
\<close>

theorem decade_derivation:
  assumes "load_table df = Inr rows" and "r \<in> set rows"
  shows "(case year r of
            Num y \<Rightarrow> exact_year (mapped_col df (aliases ''year'')) y \<longrightarrow>
                       decade r = Num (\<lfloor>rat_of_int y / 10\<rfloor> * 10)
          | Null \<Rightarrow> decade r = Null
          | Str s \<Rightarrow> False)
         \<and> decade_int64 1905 = 1900 \<and> decade_int64 1999 = 1990
         \<and> decade_of 1905 = 1900 \<and> decade_of 1999 = 1990"
proof -
  let ?yc = "mapped_col df (aliases ''year'')"
  from load_table_rows[OF assms(1)] obtain cs ns dc where
    dc: "decade_col ?yc = Inr dc" and
    rows: "rows = mk_rows (cells ?yc) (map str_strip ns) (cells (sex_col cs))
                    (cells (country_col (mapped_col df (aliases ''birth_country''))))
                    (cells (mapped_col df (aliases ''category''))) (cells dc)"
    by blast
  from assms(2) obtain i where i: "i < length rows" "r = rows ! i"
    by (auto simp: in_set_conv_nth)
  from i(1) have li: "i < length (cells ?yc)"
    by (simp add: rows length_mk_rows)
  have yr: "year r = cells ?yc ! i" and de: "decade r = cells dc ! i"
    using i by (simp_all add: rows nth_mk_rows)
  from list_all2_nthD[OF decade_col_rel[OF dc] li]
  have rel: "decade_cell (decade_op ?yc) (year r) = Inr (decade r)"
    by (simp add: yr de)
  have "case year r of
            Num y \<Rightarrow> exact_year ?yc y \<longrightarrow> decade r = Num (\<lfloor>rat_of_int y / 10\<rfloor> * 10)
          | Null \<Rightarrow> decade r = Null
          | Str s \<Rightarrow> False"
  proof (cases "year r")
    case Null
    with rel show ?thesis by simp
  next
    case (Str s)
    with rel show ?thesis by simp
  next
    case (Num y)
    with rel have "decade r = Num (decade_op ?yc y)" by simp
    then have "exact_year ?yc y \<longrightarrow> decade r = Num (\<lfloor>rat_of_int y / 10\<rfloor> * 10)"
      using decade_of_floor[of y] by (simp add: decade_op_exact)
    with Num show ?thesis by simp
  qed
  moreover have "decade_int64 1905 = 1900 \<and> decade_int64 1999 = 1990"
    by (simp add: decade_int64_def wrap64_def)
  moreover have "decade_of 1905 = 1900 \<and> decade_of 1999 = 1990"
    by (simp add: decade_of_def)
  ultimately show ?thesis by blast
qed

theorem decade_derivation_witness:
  "load_table example_frame = Inr example_rows \<and> example_rows ! 0 \<in> set example_rows \<and>
   year (example_rows ! 0) = Num 1905 \<and>
   exact_year (mapped_col example_frame (aliases ''year'')) 1905 \<and>
   decade (example_rows ! 0) = Num 1900 \<and>
   example_rows ! 1 \<in> set example_rows \<and>
   year (example_rows ! 1) = Num 1999 \<and>
   exact_year (mapped_col example_frame (aliases ''year'')) 1999 \<and>
   decade (example_rows ! 1) = Num 1990"
proof -
  have m0: "example_rows ! 0 \<in> set example_rows" and m1: "example_rows ! 1 \<in> set example_rows"
    by (simp_all add: example_rows_def)
  have y: "year (example_rows ! 0) = Num 1905" "year (example_rows ! 1) = Num 1999"
    by (simp_all add: example_rows_def)
  have e: "exact_year (mapped_col example_frame (aliases ''year'')) 1905"
          "exact_year (mapped_col example_frame (aliases ''year'')) 1999"
    by code_simp+
  have f: "\<lfloor>rat_of_int 1905 / 10\<rfloor> * 10 = 1900" "\<lfloor>rat_of_int 1999 / 10\<rfloor> * 10 = 1990"
    using decade_of_floor[of 1905] decade_of_floor[of 1999] by (simp_all add: decade_of_def)
  show ?thesis
    using decade_derivation[OF load_table_example m0] decade_derivation[OF load_table_example m1]
          load_table_example m0 m1 y e f
    by simp
qed

text \<open>
  Claim C9 as stated fails: for the least int64 year the product by 10 wraps around, and
  the decade of the record is 9223372036854775806, not \<open>floor(year / 10) * 10\<close>, which
  is -9223372036854775810.
\<close>

theorem decade_derivation_counterexample:
  "\<not> isl (load_table min_year_frame) \<and>
   map year (projr (load_table min_year_frame)) = [Num (- 9223372036854775808)] \<and>
   map decade (projr (load_table min_year_frame)) = [Num 9223372036854775806] \<and>
   \<lfloor>rat_of_int (- 9223372036854775808) / 10\<rfloor> * 10 = (- 9223372036854775810 :: int)"
proof -
  have 1: "\<not> isl (load_table min_year_frame)" by code_simp
  have 2: "map year (projr (load_table min_year_frame)) = [Num (- 9223372036854775808)]"
    by code_simp
  have 3: "map decade (projr (load_table min_year_frame)) = [Num 9223372036854775806]"
    by code_simp
  have 4: "\<lfloor>rat_of_int (- 9223372036854775808) / 10\<rfloor> * 10 = (- 9223372036854775810 :: int)"
    using decade_of_floor[of "- 9223372036854775808"] by (simp add: decade_of_def)
  from 1 2 3 4 show ?thesis by blast
qed

section \<open>Claim C8: sex and birth country\<close>

text \<open>
  Claim C8. In every record of the table, \<open>sex\<close> is a string without upper-case letters
  and \<open>birth_country\<close> is a string; a null source value of \<open>sex\<close> becomes
  \<^verbatim>\<open>unknown\<close> and a null source value of \<open>birth_country\<close> becomes \<^verbatim>\<open>Unknown\<close>.
  The queries return the table as they received it.
\<close>

theorem sex_and_country_normalized:
  assumes "load_table df = Inr rows" and "i < length rows"
  shows "(\<exists>s. sex (rows ! i) = Str s \<and> (\<forall>c\<in>set s. c \<notin> set upper_chars)) \<and>
         (\<exists>b. birth_country (rows ! i) = Str b) \<and>
         (cells (mapped_col df (aliases ''sex'')) ! i = Null \<longrightarrow>
            sex (rows ! i) = Str ''unknown'') \<and>
         (cells (mapped_col df (aliases ''birth_country'')) ! i = Null \<longrightarrow>
            birth_country (rows ! i) = Str ''Unknown'') \<and>
         (\<forall>res. aggregate v rows = Inr res \<longrightarrow> nobel res = rows)"
proof -
  let ?sc = "mapped_col df (aliases ''sex'')"
  let ?bc = "mapped_col df (aliases ''birth_country'')"
  from load_table_rows[OF assms(1)] obtain cs ns dc where
    cs: "str_accessor ?sc = Inr cs" and
    rows: "rows = mk_rows (cells (mapped_col df (aliases ''year''))) (map str_strip ns)
                    (cells (sex_col cs)) (cells (country_col ?bc))
                    (cells (mapped_col df (aliases ''category''))) (cells dc)"
    by blast
  from str_accessor_Inr[OF cs] have sc: "cells ?sc = cs" by simp
  from assms(2) have li: "i < length cs" "i < length (cells ?bc)"
    by (simp_all add: rows length_mk_rows length_sex_col length_country_col)
  have sx: "sex (rows ! i) = (case cs ! i of Str s \<Rightarrow> Str (py_lower s) | _ \<Rightarrow> Str ''unknown'')"
    using assms(2) li by (simp add: rows nth_mk_rows sex_col_cell)
  have bx: "birth_country (rows ! i) =
              (case cells ?bc ! i of Null \<Rightarrow> Str ''Unknown'' | x \<Rightarrow> astype_str (is_float_col ?bc) x)"
    using assms(2) li by (simp add: rows nth_mk_rows country_col_cell)
  have u: "\<forall>c\<in>set ''unknown''. c \<notin> set upper_chars"
    by (simp add: upper_chars_def)
  have 1: "\<exists>s. sex (rows ! i) = Str s \<and> (\<forall>c\<in>set s. c \<notin> set upper_chars)"
    using u by (cases "cs ! i") (auto simp: sx py_lower_no_upper)
  have 2: "\<exists>b. birth_country (rows ! i) = Str b"
    using astype_str_is_str[of "is_float_col ?bc" "cells ?bc ! i"]
    by (cases "cells ?bc ! i") (auto simp: bx)
  have 3: "cells ?sc ! i = Null \<longrightarrow> sex (rows ! i) = Str ''unknown''"
    by (simp add: sc sx)
  have 4: "cells ?bc ! i = Null \<longrightarrow> birth_country (rows ! i) = Str ''Unknown''"
    by (simp add: bx)
  have 5: "\<forall>res. aggregate v rows = Inr res \<longrightarrow> nobel res = rows"
    by (simp add: aggregate_nobel)
  from 1 2 3 4 5 show ?thesis by blast
qed

theorem sex_and_country_normalized_witness:
  "load_table example_frame = Inr example_rows \<and> 1 < length example_rows \<and>
   cells (mapped_col example_frame (aliases ''sex'')) ! 1 = Null \<and>
   sex (example_rows ! 1) = Str ''unknown'' \<and>
   cells (mapped_col example_frame (aliases ''birth_country'')) ! 1 = Null \<and>
   birth_country (example_rows ! 1) = Str ''Unknown'' \<and>
   aggregate Pandas2 example_rows = Inr (projr (aggregate Pandas2 example_rows)) \<and>
   nobel (projr (aggregate Pandas2 example_rows)) = example_rows \<and>
   aggregate Pandas3 example_rows = Inr (projr (aggregate Pandas3 example_rows)) \<and>
   nobel (projr (aggregate Pandas3 example_rows)) = example_rows"
proof -
  have l: "1 < length example_rows" by (simp add: example_rows_def)
  have s: "cells (mapped_col example_frame (aliases ''sex'')) ! 1 = Null"
    by (simp add: mapped_col_def aliases_def col_map_def example_frame_def)
  have b: "cells (mapped_col example_frame (aliases ''birth_country'')) ! 1 = Null"
    by (simp add: mapped_col_def aliases_def col_map_def example_frame_def)
  have "\<not> isl (aggregate Pandas2 example_rows)" by code_simp
  then have a2: "aggregate Pandas2 example_rows = Inr (projr (aggregate Pandas2 example_rows))"
    by (cases "aggregate Pandas2 example_rows") simp_all
  have "\<not> isl (aggregate Pandas3 example_rows)" by code_simp
  then have a3: "aggregate Pandas3 example_rows = Inr (projr (aggregate Pandas3 example_rows))"
    by (cases "aggregate Pandas3 example_rows") simp_all
  from sex_and_country_normalized[OF load_table_example l, where v = Pandas2]
       sex_and_country_normalized[OF load_table_example l, where v = Pandas3]
       s b a2 a3 load_table_example l
  show ?thesis by simp
qed

section \<open>Claim C5: the USA-born mask\<close>

lemma lower_char_dot: "lower_char c = CHR ''.'' \<Longrightarrow> c = CHR ''.''"
proof (cases "map_of (zip upper_chars lower_chars) c")
  case None
  then show "lower_char c = CHR ''.'' \<Longrightarrow> c = CHR ''.''" by (simp add: lower_char_def)
next
  case (Some d)
  then have "d \<in> set lower_chars" by (auto dest!: map_of_SomeD set_zip_rightD)
  then have "d \<noteq> CHR ''.''" by (auto simp: lower_chars_def)
  with Some show "lower_char c = CHR ''.'' \<Longrightarrow> c = CHR ''.''" by (simp add: lower_char_def)
qed

lemma lower_char_of_dot: "lower_char (CHR ''.'') = CHR ''.''"
  by (simp add: lower_char_def upper_chars_def lower_chars_def)

lemma match_here_literal:
  "prefix (py_lower lit) (py_lower s) \<Longrightarrow>
     match_here (map (\<lambda>c. if c = CHR ''.'' then AnyChar else Lit c) lit) s"
proof (induction lit arbitrary: s)
  case Nil
  show ?case by simp
next
  case (Cons p lit)
  then obtain c cs where s: "s = c # cs" by (cases s) (auto simp: py_lower_def)
  with Cons.prems have h: "lower_char p = lower_char c" and t: "prefix (py_lower lit) (py_lower cs)"
    by (auto simp: py_lower_def)
  have "atom_match (if p = CHR ''.'' then AnyChar else Lit p) c"
    using h lower_char_dot[of c] by (auto simp: lower_char_of_dot)
  with Cons.IH[OF t] s show ?case by simp
qed

lemma re_search_at:
  "k \<le> length s \<Longrightarrow> list_ex (\<lambda>alt. match_here alt (drop k s)) alts \<Longrightarrow> re_search alts s"
proof (induction s arbitrary: k)
  case Nil
  then show ?case by simp
next
  case (Cons c cs)
  show ?case
  proof (cases k)
    case 0
    with Cons.prems show ?thesis by simp
  next
    case (Suc j)
    with Cons.prems have "j \<le> length cs" "list_ex (\<lambda>alt. match_here alt (drop j cs)) alts"
      by simp_all
    from Cons.IH[OF this] show ?thesis by simp
  qed
qed

lemma sublist_lower_drop:
  assumes "sublist (py_lower lit) (py_lower s)"
  shows "\<exists>k\<le>length s. prefix (py_lower lit) (py_lower (drop k s))"
proof -
  from assms obtain pre suf where e: "py_lower s = pre @ py_lower lit @ suf"
    by (auto simp: sublist_def)
  then have "length pre \<le> length s"
    by (metis length_append length_map py_lower_def le_add1)
  moreover have "py_lower (drop (length pre) s) = py_lower lit @ suf"
    using e by (simp add: py_lower_def drop_map[symmetric])
  ultimately show ?thesis by (auto simp: prefix_def)
qed

lemma compile_usa_pattern:
  "compile_regex usa_pattern = map (map (\<lambda>c. if c = CHR ''.'' then AnyChar else Lit c)) usa_literals"
  by (simp add: compile_regex_def usa_pattern_def usa_literals_def)

text \<open>
  One direction holds: a \<open>birth_country\<close> that contains one of the four literal texts,
  letter case ignored, is classified USA-born.
\<close>

lemma usa_mask_covers_literals: "spec_usa_born c \<Longrightarrow> usa_mask c"
proof (cases c)
  case (Str s)
  assume "spec_usa_born c"
  with Str obtain lit where lit: "lit \<in> set usa_literals" "sublist (py_lower lit) (py_lower s)"
    by (auto simp: list_ex_iff contains_ci_def)
  from sublist_lower_drop[OF lit(2)] obtain k where
    k: "k \<le> length s" "prefix (py_lower lit) (py_lower (drop k s))" by blast
  from match_here_literal[OF k(2)] lit(1)
  have "list_ex (\<lambda>alt. match_here alt (drop k s)) (compile_regex usa_pattern)"
    by (auto simp: compile_usa_pattern list_ex_iff)
  from re_search_at[OF k(1) this] Str show ?thesis by simp
qed simp_all

text \<open>
  Claim C5 says a record is USA-born exactly if \<open>birth_country\<close> contains, letter case
  ignored, one of the literal texts \<^verbatim>\<open>United States\<close>, \<^verbatim>\<open>USA\<close>, \<^verbatim>\<open>America\<close>,
  \<^verbatim>\<open>U.S.A.\<close>. The script passes the four texts as one regular expression, in which
  each dot of \<^verbatim>\<open>U.S.A.\<close> matches any character: \<^verbatim>\<open>Russian Empire\<close> holds none of
  the four texts and is matched (by \<^verbatim>\<open>ussian\<close>), so a table whose only record was born
  there reports a decade of highest USA-born ratio: the USA query gives the decade 1900
  the ratio 1 and reports it.
\<close>

theorem usa_mask_matches_russian_empire:
  "usa_mask (Str ''Russian Empire'') \<and> \<not> spec_usa_born (Str ''Russian Empire'') \<and>
   \<not> isl (pipeline Pandas2 russian_frame) \<and>
   max_decade_usa (projr (pipeline Pandas2 russian_frame)) = Some 1900 \<and>
   \<not> isl (load_table russian_frame) \<and>
   \<not> isl (usa_query (projr (load_table russian_frame))) \<and>
   projr (usa_query (projr (load_table russian_frame))) = Some ([(1900, 1)], 1900)"
  by code_simp

section \<open>Claim C4: name synthesis\<close>

lemma sequence_err_map_eq:
  assumes "sequence_err (map h xs) = Inr ys"
    and "\<And>x y. x \<in> set xs \<Longrightarrow> h x = Inr y \<Longrightarrow> y = k x"
  shows "ys = map k xs"
  using assms by (induction xs arbitrary: ys) (auto split: sum.splits)

lemma add_space_cell:
  "str_add (if isna a then Str [] else a) (Str '' '') = Inr y \<Longrightarrow> y = Str (half a @ '' '')"
  by (cases a) auto

lemma add_half_cell:
  "str_add (Str s) (if isna b then Str [] else b) = Inr y \<Longrightarrow> y = Str (s @ half b)"
  by (cases b) auto

lemma combine_names_Inr:
  assumes "combine_names g f = Inr c"
  shows "c = ObjCol (map (\<lambda>ab. Str (half (fst ab) @ '' '' @ half (snd ab))) (zip (cells g) (cells f)))"
proof -
  from assms obtain gs ns where
    gs: "sequence_err (map (\<lambda>a. str_add a (Str '' '')) (fillna (Str []) (cells g))) = Inr gs" and
    ns: "sequence_err (map (\<lambda>(a, b). str_add a b) (zip gs (fillna (Str []) (cells f)))) = Inr ns" and
    c: "c = ObjCol ns"
    by (auto simp: combine_names_def bind_err_Inr_iff)
  from gs have "sequence_err (map (\<lambda>a. str_add (if isna a then Str [] else a) (Str '' '')) (cells g)) = Inr gs"
    by (simp add: fillna_def comp_def)
  then have gs_eq: "gs = map (\<lambda>a. Str (half a @ '' '')) (cells g)"
    by (rule sequence_err_map_eq) (rule add_space_cell)
  have z: "zip gs (fillna (Str []) (cells f)) =
             map (\<lambda>ab. (Str (half (fst ab) @ '' ''), if isna (snd ab) then Str [] else snd ab))
                 (zip (cells g) (cells f))"
    by (auto simp: gs_eq fillna_def zip_map_map)
  from ns have "sequence_err (map (\<lambda>ab. str_add (Str (half (fst ab) @ '' ''))
                   (if isna (snd ab) then Str [] else snd ab)) (zip (cells g) (cells f))) = Inr ns"
    by (simp add: z comp_def)
  then have "ns = map (\<lambda>ab. Str (half (fst ab) @ '' '' @ half (snd ab))) (zip (cells g) (cells f))"
    by (rule sequence_err_map_eq) (auto dest: add_half_cell)
  with c show ?thesis by simp
qed

lemma name_source_pair:
  "name_source df =
     (case name_pair df of
        Some (g, f) \<Rightarrow> combine_names g f
      | None \<Rightarrow> Inr (mapped_col df (aliases ''full_name'')))"
  by (simp add: name_source_def name_pair_def split: option.splits)


text \<open>
  Claim C4, amended. When a pair of name columns exists, \<open>full_name\<close> is, in every row,
  the two halves joined by one space (a missing half counts as the empty string) and
  then stripped, also when \<^verbatim>\<open>map_columns\<close> had filled \<open>full_name\<close> from an alias: the
  mapped value is overwritten. Without a pair, \<open>full_name\<close> is the mapped column,
  stripped.
\<close>

theorem name_synthesis:
  assumes "normalize df = Inr nf"
  shows "case name_pair df of
           Some (g, f) \<Rightarrow>
             map_of nf ''full_name'' =
               Some (ObjCol (map (\<lambda>ab. Str (py_strip (half (fst ab) @ '' '' @ half (snd ab))))
                                 (zip (cells g) (cells f))))
         | None \<Rightarrow>
             map_of nf ''full_name'' =
               Some (ObjCol (map str_strip (cells (mapped_col df (aliases ''full_name'')))))"
proof -
  from normalize_Inr[OF assms] obtain fn ns where
    fn: "name_source df = Inr fn" and ns: "str_accessor fn = Inr ns" and
    nf: "map_of nf ''full_name'' = Some (ObjCol (map str_strip ns))"
    by blast
  from str_accessor_Inr[OF ns] have fn_ns: "fn = ObjCol ns" by simp
  show ?thesis
  proof (cases "name_pair df")
    case None
    with fn have "fn = mapped_col df (aliases ''full_name'')"
      by (simp add: name_source_pair)
    with fn_ns nf None show ?thesis by auto
  next
    case (Some gf)
    obtain g f where gf: "gf = (g, f)" by (cases gf)
    from fn Some gf have "combine_names g f = Inr fn"
      by (simp add: name_source_pair)
    from combine_names_Inr[OF this] fn_ns
    have "ns = map (\<lambda>ab. Str (half (fst ab) @ '' '' @ half (snd ab))) (zip (cells g) (cells f))"
      by simp
    with nf Some gf show ?thesis by (simp add: comp_def)
  qed
qed

theorem name_synthesis_witness:
  "normalize override_frame = Inr (projr (normalize override_frame)) \<and>
   name_pair override_frame = Some (ObjCol [Str ''Maria''], ObjCol [Str ''Sklodowska '']) \<and>
   map_of (projr (normalize override_frame)) ''full_name'' = Some (ObjCol [Str ''Maria Sklodowska'']) \<and>
   normalize example_frame = Inr (projr (normalize example_frame)) \<and>
   name_pair example_frame = None \<and>
   map_of (projr (normalize example_frame)) ''full_name'' =
     Some (ObjCol [Str ''Marie Curie'', Str ''A'', Str ''Marie Curie'', Str ''A''])"
proof -
  have "\<not> isl (normalize override_frame)" by code_simp
  then have n: "normalize override_frame = Inr (projr (normalize override_frame))"
    by (cases "normalize override_frame") simp_all
  have p: "name_pair override_frame = Some (ObjCol [Str ''Maria''], ObjCol [Str ''Sklodowska ''])"
    by (simp add: name_pair_def override_frame_def)
  have s: "py_strip ''Maria Sklodowska '' = ''Maria Sklodowska''" by code_simp
  have "\<not> isl (normalize example_frame)" by code_simp
  then have n2: "normalize example_frame = Inr (projr (normalize example_frame))"
    by (cases "normalize example_frame") simp_all
  have p2: "name_pair example_frame = None" by code_simp
  have s2: "map str_strip (cells (mapped_col example_frame (aliases ''full_name''))) =
              [Str ''Marie Curie'', Str ''A'', Str ''Marie Curie'', Str ''A'']"
    by code_simp
  from name_synthesis[OF n] name_synthesis[OF n2] n p s n2 p2 s2 show ?thesis by simp
qed

text \<open>
  Claim C4 as stated fails: \<open>full_name\<close>, filled by direct mapping from the column
  \<^verbatim>\<open>full_name\<close>, is not left as mapped when \<^verbatim>\<open>givenName\<close> and \<^verbatim>\<open>familyName\<close> exist.
\<close>

theorem name_synthesis_counterexample:
  "map_of (map_columns override_frame) ''full_name'' = Some (ObjCol [Str ''Marie Curie'']) \<and>
   \<not> isl (normalize override_frame) \<and>
   map_of (projr (normalize override_frame)) ''full_name'' = Some (ObjCol [Str ''Maria Sklodowska'']) \<and>
   \<not> isl (pipeline Pandas2 override_frame) \<and>
   map full_name (nobel (projr (pipeline Pandas2 override_frame))) = [Str ''Maria Sklodowska''] \<and>
   \<not> isl (pipeline Pandas3 override_frame) \<and>
   map full_name (nobel (projr (pipeline Pandas3 override_frame))) = [Str ''Maria Sklodowska'']"
  by code_simp

section \<open>Facts about Series\<close>

lemma set_unique [simp]: "set (unique xs) = set xs"
  by (induction xs) auto

lemma distinct_unique [simp]: "distinct (unique xs)"
  by (induction xs) auto

lemma unique_Nil_iff [simp]: "unique xs = [] \<longleftrightarrow> xs = []"
  by (cases xs) simp_all

lemma map_of_key_fun:
  "map_of (map (\<lambda>k. (k, f k)) ks) k = (if k \<in> set ks then Some (f k) else None)"
  by (induction ks) auto

lemma map_of_groupby_size:
  "map_of (groupby_size kf ks) k = (if k \<in> set ks then Some (count_list ks k) else None)"
  by (simp add: groupby_size_def map_of_key_fun)

lemma keys_groupby_size [simp]: "set (map fst (groupby_size kf ks)) = set ks"
  by (simp add: groupby_size_def comp_def)

lemma map_of_series_div:
  "map_of (series_div kf a b) k =
     (if k \<in> fst ` set a \<union> fst ` set b
      then Some (case (map_of a k, map_of b k) of
                   (Some x, Some y) \<Rightarrow> Some (of_nat x / of_nat y)
                 | _ \<Rightarrow> None)
      else None)"
  by (simp add: series_div_def map_of_key_fun)

lemma map_of_fillna0:
  "map_of (fillna0 s) k = map_option (\<lambda>v. case v of None \<Rightarrow> 0 | Some x \<Rightarrow> x) (map_of s k)"
  by (induction s) (auto simp: fillna0_def)

lemma keys_fillna0 [simp]: "map fst (fillna0 s) = map fst s"
  by (simp add: fillna0_def comp_def)

lemma keys_series_div:
  "set (map fst (series_div kf a b)) = fst ` set a \<union> fst ` set b"
  by (simp add: series_div_def comp_def)

lemma distinct_keys_series_div: "distinct (map fst (series_div kf a b))"
  by (simp add: series_div_def comp_def)

lemma argmax_from_max:
  "snd best \<le> snd (argmax_from best xs) \<and> (\<forall>kv\<in>set xs. snd kv \<le> snd (argmax_from best xs))"
proof (induction xs arbitrary: best)
  case Nil
  show ?case by simp
next
  case (Cons kv xs)
  from Cons.IH[of "if snd best < snd kv then kv else best"] show ?case
    by (auto split: if_splits)
qed

lemma argmax_from_mem: "argmax_from best xs \<in> insert best (set xs)"
  by (induction xs arbitrary: best) (auto split: if_splits)

lemma idxmax_Inr:
  assumes "xs \<noteq> []"
  shows "\<exists>k v. idxmax xs = Inr k \<and> (k, v) \<in> set xs \<and> (\<forall>kv\<in>set xs. snd kv \<le> v)"
proof -
  from assms obtain kv rest where xs: "xs = kv # rest" by (cases xs) auto
  let ?m = "argmax_from kv rest"
  have "idxmax xs = Inr (fst ?m)" by (simp add: idxmax_def xs)
  moreover have "(fst ?m, snd ?m) \<in> set xs"
    using argmax_from_mem[of kv rest] by (simp add: xs)
  moreover have "\<forall>kv'\<in>set xs. snd kv' \<le> snd ?m"
    using argmax_from_max[of kv rest] by (simp add: xs)
  ultimately show ?thesis by blast
qed

lemma idxmax_Inl_iff: "idxmax xs = Inl e \<longleftrightarrow> xs = [] \<and> e = ArgmaxOfEmpty"
  by (cases xs) (auto simp: idxmax_def)

lemma count_list_map_filter:
  "count_list (List.map_filter f xs) k = length (filter (\<lambda>x. f x = Some k) xs)"
  by (induction xs) (auto simp: List.map_filter_simps split: option.splits)

lemma set_map_filter: "set (List.map_filter f xs) = {k. \<exists>x\<in>set xs. f x = Some k}"
  by (induction xs) (auto simp: List.map_filter_simps split: option.splits)

section \<open>Claim C6: the USA-born ratio\<close>

lemma fst_set_groupby_size: "fst ` set (groupby_size kf ks) = set ks"
  using keys_groupby_size[of kf ks] by simp

lemma num_of_eq_Some [simp]: "num_of c = Some d \<longleftrightarrow> c = Num d"
  by (cases c) auto

lemma count_decade_keys: "count_list (decade_keys rows) d = total_count rows d"
  by (simp add: decade_keys_def count_list_map_filter total_count_def)

lemma total_count_usa_winners: "total_count (usa_winners rows) d = mask_count rows d"
  by (simp add: total_count_def mask_count_def usa_winners_def conj_commute)

lemma in_decade_keys: "d \<in> set (decade_keys rows) \<longleftrightarrow> (\<exists>r\<in>set rows. decade r = Num d)"
  by (simp add: decade_keys_def set_map_filter)

lemma usa_keys_subset: "d \<in> set (decade_keys (usa_winners rows)) \<Longrightarrow> d \<in> set (decade_keys rows)"
  by (auto simp: in_decade_keys usa_winners_def)

lemma mask_count_le: "mask_count rows d \<le> total_count rows d"
proof -
  have "filter (\<lambda>r. decade r = Num d \<and> usa_mask (birth_country r)) rows =
        filter (\<lambda>r. usa_mask (birth_country r)) (filter (\<lambda>r. decade r = Num d) rows)"
    by (simp add: conj_commute)
  then show ?thesis
    unfolding mask_count_def total_count_def by (metis length_filter_le)
qed

lemma total_count_pos: "r \<in> set rows \<Longrightarrow> decade r = Num d \<Longrightarrow> 0 < total_count rows d"
  by (auto simp: total_count_def filter_empty_conv)

lemma mask_count_zero_iff:
  "mask_count rows d = 0 \<longleftrightarrow> d \<notin> set (decade_keys (usa_winners rows))"
  by (auto simp: mask_count_def in_decade_keys usa_winners_def filter_empty_conv)

lemma map_of_usa_ratio:
  "map_of (usa_ratio_of rows) d =
     (if d \<in> set (decade_keys rows)
      then Some (of_nat (mask_count rows d) / of_nat (total_count rows d))
      else None)"
proof (cases "d \<in> set (decade_keys rows)")
  case False
  then have "d \<notin> set (decade_keys (usa_winners rows))"
    using usa_keys_subset by blast
  with False show ?thesis
    by (simp add: usa_ratio_of_def map_of_fillna0 map_of_series_div usa_per_decade_def
        total_per_decade_def fst_set_groupby_size)
next
  case True
  then show ?thesis
    using mask_count_zero_iff[of rows d]
    by (simp add: usa_ratio_of_def map_of_fillna0 map_of_series_div usa_per_decade_def
        total_per_decade_def map_of_groupby_size count_decade_keys total_count_usa_winners
        fst_set_groupby_size)
qed

lemma distinct_usa_ratio: "distinct (map fst (usa_ratio_of rows))"
  by (simp add: usa_ratio_of_def distinct_keys_series_div)


text \<open>
  What the script computes. Every decade present in the table has the ratio (records of
  the decade selected by the mask of line 100) / (records of the decade); the ratio
  lies between 0 and 1 and is 0, and present, for a decade without a selected record;
  \<^verbatim>\<open>idxmax\<close> gives a decade of largest ratio.
\<close>

lemma usa_ratio_of_mask:
  assumes "r \<in> set rows" and "decade r = Num d"
  shows "\<exists>dmax m.
           map_of (usa_ratio_of rows) d =
             Some (of_nat (mask_count rows d) / of_nat (total_count rows d)) \<and>
           (0::rat) \<le> of_nat (mask_count rows d) / of_nat (total_count rows d) \<and>
           of_nat (mask_count rows d) / of_nat (total_count rows d) \<le> (1::rat) \<and>
           (mask_count rows d = 0 \<longrightarrow> map_of (usa_ratio_of rows) d = Some 0) \<and>
           idxmax (usa_ratio_of rows) = Inr dmax \<and>
           map_of (usa_ratio_of rows) dmax = Some m \<and>
           (\<forall>d' v. map_of (usa_ratio_of rows) d' = Some v \<longrightarrow> v \<le> m)"
proof -
  let ?ratio = "usa_ratio_of rows"
  from assms have d: "d \<in> set (decade_keys rows)"
    by (auto simp: in_decade_keys)
  then have md: "map_of ?ratio d = Some (of_nat (mask_count rows d) / of_nat (total_count rows d))"
    by (simp add: map_of_usa_ratio)
  then have "?ratio \<noteq> []" by auto
  from idxmax_Inr[OF this] obtain dmax m where
    ix: "idxmax ?ratio = Inr dmax" and mem: "(dmax, m) \<in> set ?ratio" and
    mx: "\<forall>kv\<in>set ?ratio. snd kv \<le> m"
    by blast
  have pos: "0 < total_count rows d"
    using assms by (rule total_count_pos)
  have b0: "(0::rat) \<le> of_nat (mask_count rows d) / of_nat (total_count rows d)"
    by simp
  have b1: "of_nat (mask_count rows d) / of_nat (total_count rows d) \<le> (1::rat)"
    using pos mask_count_le[of rows d] by (simp add: divide_le_eq)
  have z: "mask_count rows d = 0 \<longrightarrow> map_of ?ratio d = Some 0"
    using md by simp
  have mm: "map_of ?ratio dmax = Some m"
    using mem distinct_usa_ratio by (simp add: map_of_eq_Some_iff)
  have le: "\<forall>d' v. map_of ?ratio d' = Some v \<longrightarrow> v \<le> m"
    using mx by (auto dest!: map_of_SomeD)
  show ?thesis
    by (intro exI[of _ dmax] exI[of _ m] conjI md b0 b1 z ix mm le)
qed

text \<open>
  The mask selects every record that is USA-born by the specification's rule, and the
  two counts agree on a table in which it selects no other record.
\<close>

lemma usa_count_le_mask_count: "usa_count rows d \<le> mask_count rows d"
proof -
  have "filter (\<lambda>r. decade r = Num d \<and> spec_usa_born (birth_country r)) rows =
        filter (\<lambda>r. spec_usa_born (birth_country r))
               (filter (\<lambda>r. decade r = Num d \<and> usa_mask (birth_country r)) rows)"
    by (induction rows) (auto simp: usa_mask_covers_literals)
  then show ?thesis
    unfolding mask_count_def usa_count_def by (metis length_filter_le)
qed

lemma mask_count_spec:
  assumes "\<And>r. r \<in> set rows \<Longrightarrow> usa_mask (birth_country r) = spec_usa_born (birth_country r)"
  shows "mask_count rows d = usa_count rows d"
proof -
  have "filter (\<lambda>r. decade r = Num d \<and> usa_mask (birth_country r)) rows =
        filter (\<lambda>r. decade r = Num d \<and> spec_usa_born (birth_country r)) rows"
    using assms by (intro filter_cong) auto
  then show ?thesis by (simp add: mask_count_def usa_count_def)
qed

text \<open>
  Claim C6 says that the ratio of a decade is (USA-born records of the decade) /
  (records of the decade), that it is 0 for a decade without USA-born records, and that
  the reported decade has the largest ratio. The script counts the records selected by
  the mask of line 100, which takes \<^verbatim>\<open>Russian Empire\<close> for USA-born (see C5). In the
  example table the decade 1910 has one record, born in the Russian Empire, and no
  USA-born record: the script gives the decade the ratio 1 instead of 0 and reports
  1910, while the largest ratio of USA-born records is 1/2, in the decade 1990.
\<close>

theorem usa_ratio_counts_russian_empire:
  "load_table example_frame = Inr example_rows \<and>
   usa_count example_rows 1910 = 0 \<and> total_count example_rows 1910 = 1 \<and>
   map_of (usa_ratio_of example_rows) 1910 = Some 1 \<and>
   usa_count example_rows 1990 = 1 \<and> total_count example_rows 1990 = 2 \<and>
   map_of (usa_ratio_of example_rows) 1990 = Some (1 / 2) \<and>
   usa_count example_rows 1900 = 0 \<and> total_count example_rows 1900 = 1 \<and>
   map_of (usa_ratio_of example_rows) 1900 = Some 0 \<and>
   \<not> isl (usa_query example_rows) \<and>
   projr (usa_query example_rows) = Some ([(1900, 0), (1910, 1), (1990, 1 / 2)], 1910) \<and>
   \<not> isl (pipeline Pandas2 example_frame) \<and>
   max_decade_usa (projr (pipeline Pandas2 example_frame)) = Some 1910 \<and>
   \<not> isl (pipeline Pandas3 example_frame) \<and>
   max_decade_usa (projr (pipeline Pandas3 example_frame)) = Some 1910"
proof -
  have c: "usa_count example_rows 1910 = 0" "total_count example_rows 1910 = 1"
          "usa_count example_rows 1990 = 1" "total_count example_rows 1990 = 2"
          "usa_count example_rows 1900 = 0" "total_count example_rows 1900 = 1"
    by code_simp+
  have m: "map_of (usa_ratio_of example_rows) 1910 = Some 1"
          "map_of (usa_ratio_of example_rows) 1990 = Some (1 / 2)"
          "map_of (usa_ratio_of example_rows) 1900 = Some 0"
    by code_simp+
  have q: "\<not> isl (usa_query example_rows)"
          "projr (usa_query example_rows) = Some ([(1900, 0), (1910, 1), (1990, 1 / 2)], 1910)"
    by code_simp+
  have p: "\<not> isl (pipeline Pandas2 example_frame)"
          "max_decade_usa (projr (pipeline Pandas2 example_frame)) = Some 1910"
          "\<not> isl (pipeline Pandas3 example_frame)"
          "max_decade_usa (projr (pipeline Pandas3 example_frame)) = Some 1910"
    by code_simp+
  from load_table_example c m q p show ?thesis by simp
qed

section \<open>Claim C3: the female proportion\<close>

lemma pair_key_fun:
  "(case num_of (decade r) of None \<Rightarrow> None
    | Some d' \<Rightarrow> if isna (category r) then None else Some (d', category r)) = Some (d, c)
   \<longleftrightarrow> decade r = Num d \<and> category r = c \<and> c \<noteq> Null"
  by (cases "decade r"; cases "category r") auto

lemma count_pair_keys:
  "count_list (pair_keys rows) (d, c) = (if c = Null then 0 else total_pair_count rows d c)"
  by (simp add: pair_keys_def count_list_map_filter pair_key_fun total_pair_count_def)

lemma in_pair_keys:
  "(d, c) \<in> set (pair_keys rows) \<longleftrightarrow> c \<noteq> Null \<and> (\<exists>r\<in>set rows. decade r = Num d \<and> category r = c)"
  by (auto simp: pair_keys_def set_map_filter pair_key_fun)

lemma total_pair_count_pos:
  "0 < total_pair_count rows d c \<longleftrightarrow> (\<exists>r\<in>set rows. decade r = Num d \<and> category r = c)"
  by (auto simp: total_pair_count_def filter_empty_conv)

lemma total_pair_count_female:
  "total_pair_count (female_winners rows) d c = female_pair_count rows d c"
  by (simp add: total_pair_count_def female_pair_count_def female_winners_def conj_commute conj_left_commute)

lemma female_keys_subset:
  "k \<in> set (pair_keys (female_winners rows)) \<Longrightarrow> k \<in> set (pair_keys rows)"
  by (cases k) (auto simp: in_pair_keys female_winners_def)

lemma female_pair_count_zero:
  "(d, c) \<notin> set (pair_keys (female_winners rows)) \<Longrightarrow> c \<noteq> Null \<Longrightarrow> female_pair_count rows d c = 0"
  using count_pair_keys[of "female_winners rows" d c]
  by (simp add: total_pair_count_female count_list_0_iff)

lemma map_of_prop:
  "map_of (prop_of rows) (d, c) =
     (if (d, c) \<in> set (pair_keys rows)
      then Some (of_nat (female_pair_count rows d c) / of_nat (total_pair_count rows d c))
      else None)"
proof (cases "(d, c) \<in> set (pair_keys rows)")
  case False
  then have "(d, c) \<notin> set (pair_keys (female_winners rows))"
    using female_keys_subset by blast
  with False show ?thesis
    by (simp add: prop_of_def map_of_fillna0 map_of_series_div female_group_def total_group_def
        fst_set_groupby_size)
next
  case True
  then have c: "c \<noteq> Null" by (simp add: in_pair_keys)
  show ?thesis
  proof (cases "(d, c) \<in> set (pair_keys (female_winners rows))")
    case True
    with \<open>(d, c) \<in> set (pair_keys rows)\<close> c show ?thesis
      by (simp add: prop_of_def map_of_fillna0 map_of_series_div female_group_def total_group_def
        fst_set_groupby_size map_of_groupby_size count_pair_keys total_pair_count_female)
  next
    case False
    with \<open>(d, c) \<in> set (pair_keys rows)\<close> c female_pair_count_zero[OF False c] show ?thesis
      by (simp add: prop_of_def map_of_fillna0 map_of_series_div female_group_def total_group_def
        fst_set_groupby_size map_of_groupby_size)
  qed
qed

lemma keys_prop: "fst ` set (prop_of rows) = set (pair_keys rows)"
proof -
  have "fst ` set (prop_of rows) = set (map fst (prop_of rows))" by simp
  also have "\<dots> = set (pair_keys (female_winners rows)) \<union> set (pair_keys rows)"
    unfolding prop_of_def keys_fillna0 keys_series_div
    by (simp add: female_group_def total_group_def fst_set_groupby_size)
  also have "\<dots> = set (pair_keys rows)"
    using female_keys_subset by blast
  finally show ?thesis .
qed

lemma distinct_prop: "distinct (map fst (prop_of rows))"
  by (simp add: prop_of_def distinct_keys_series_div)

lemma map_of_row:
  "map_of (map (\<lambda>b. ((x, b), v b)) bs) (y, b) = (if x = y \<and> b \<in> set bs then Some (v b) else None)"
  by (induction bs) auto

lemma map_of_grid:
  "map_of (concat (map (\<lambda>a. map (\<lambda>b. ((g a, b), v a b)) bs) as)) (y, b) =
     (case find (\<lambda>a. g a = y) as of
        None \<Rightarrow> None
      | Some a \<Rightarrow> if b \<in> set bs then Some (v a b) else None)"
  by (induction as) (auto simp: map_of_row map_add_def split: option.splits)


lemma find_inj:
  "inj g \<Longrightarrow> find (\<lambda>a. g a = g x) as = (if x \<in> set as then Some x else None)"
  by (induction as) (auto dest: injD)

lemma map_of_zeros_matrix:
  "map_of (m_data (zeros_matrix idx cols)) (x, c) =
     (if x \<in> set idx \<and> c \<in> set cols then Some 0 else None)"
  using map_of_grid[of "\<lambda>a. a" "\<lambda>a b. 0::rat" cols idx x c] find_inj[of "\<lambda>a. a" x idx]
  by (simp add: zeros_matrix_def)

lemma map_of_unstack:
  "map_of (m_data (unstack_fillna0 p)) (Num d, c) =
     (if d \<in> (\<lambda>kv. fst (fst kv)) ` set p \<and> c \<in> (\<lambda>kv. snd (fst kv)) ` set p
      then Some (case map_of p (d, c) of None \<Rightarrow> 0 | Some v \<Rightarrow> v)
      else None)"
proof -
  have i: "inj Num" by (simp add: inj_def)
  show ?thesis
    using map_of_grid[of Num "\<lambda>d c. case map_of p (d, c) of None \<Rightarrow> 0 | Some v \<Rightarrow> v"
                         "sort_key cell_key (unique (map (\<lambda>kv. snd (fst kv)) p))"
                         "sort_key id (unique (map (\<lambda>kv. fst (fst kv)) p))" "Num d" c]
          find_inj[OF i, of d "sort_key id (unique (map (\<lambda>kv. fst (fst kv)) p))"]
    by (simp add: unstack_fillna0_def Let_def)
qed

lemma index_unstack:
  "Num d \<in> set (m_index (unstack_fillna0 p)) \<longleftrightarrow> d \<in> (\<lambda>kv. fst (fst kv)) ` set p"
  by (auto simp: unstack_fillna0_def Let_def)

lemma columns_unstack:
  "c \<in> set (m_columns (unstack_fillna0 p)) \<longleftrightarrow> c \<in> (\<lambda>kv. snd (fst kv)) ` set p"
  by (simp add: unstack_fillna0_def Let_def)

lemma no_female_count: "female_winners rows = [] \<Longrightarrow> female_pair_count rows d c = 0"
  by (auto simp: female_winners_def female_pair_count_def filter_empty_conv)

lemma female_query_empty:
  assumes "female_winners rows = []"
  shows "female_query rows =
           Inr ((1900, Str ''Unknown''), [],
                zeros_matrix (unique (map decade rows)) (unique (map category rows)))"
  using assms by (simp add: female_query_def)

lemma female_query_nonempty:
  assumes "female_winners rows \<noteq> []"
  shows "\<exists>dict. female_query rows = Inr (dict, prop_of rows, unstack_fillna0 (prop_of rows)) \<and>
           (prop_of rows \<noteq> [] \<longrightarrow>
              (\<exists>mx. map_of (prop_of rows) dict = Some mx \<and>
                    (\<forall>k v. map_of (prop_of rows) k = Some v \<longrightarrow> v \<le> mx)))"
proof (cases "prop_of rows = []")
  case True
  with assms show ?thesis by (simp add: female_query_def bind_err_def)
next
  case False
  from idxmax_Inr[OF False] obtain k mx where
    ix: "idxmax (prop_of rows) = Inr k" and mem: "(k, mx) \<in> set (prop_of rows)" and
    mx: "\<forall>kv\<in>set (prop_of rows). snd kv \<le> mx"
    by blast
  have "map_of (prop_of rows) k = Some mx"
    using mem distinct_prop by (simp add: map_of_eq_Some_iff)
  moreover have "\<forall>k' v. map_of (prop_of rows) k' = Some v \<longrightarrow> v \<le> mx"
    using mx by (auto dest!: map_of_SomeD)
  moreover have "female_query rows = Inr (k, prop_of rows, unstack_fillna0 (prop_of rows))"
    using assms False ix by (simp add: female_query_def bind_err_def)
  ultimately show ?thesis by blast
qed

text \<open>
  Claim C3, amended. The matrix \<^verbatim>\<open>prop_df\<close> holds, for every pair of decade and
  category with at least one record, (female records of the pair) / (records of the
  pair). A pair without records is absent from the Series \<^verbatim>\<open>prop\<close>, over which the
  maximum is taken, but where its decade is a row and its category a column of the
  matrix it is reported there as 0. When there is a female record and \<^verbatim>\<open>prop\<close> is not
  empty, the reported pair has the largest proportion.
\<close>

theorem female_proportion:
  "\<exists>dict prop m.
     female_query rows = Inr (dict, prop, m) \<and>
     (\<forall>d c. c \<noteq> Null \<and> 0 < total_pair_count rows d c \<longrightarrow>
        map_of (m_data m) (Num d, c) =
          Some (of_nat (female_pair_count rows d c) / of_nat (total_pair_count rows d c)) \<and>
        (female_winners rows \<noteq> [] \<longrightarrow> map_of prop (d, c) =
          Some (of_nat (female_pair_count rows d c) / of_nat (total_pair_count rows d c)))) \<and>
     (\<forall>d c. total_pair_count rows d c = 0 \<longrightarrow>
        map_of prop (d, c) = None \<and>
        (Num d \<in> set (m_index m) \<and> c \<in> set (m_columns m) \<longrightarrow>
           map_of (m_data m) (Num d, c) = Some 0)) \<and>
     (female_winners rows \<noteq> [] \<and> prop \<noteq> [] \<longrightarrow>
        (\<exists>mx. map_of prop dict = Some mx \<and> (\<forall>k v. map_of prop k = Some v \<longrightarrow> v \<le> mx))) \<and>
     (\<forall>res. aggregate v rows = Inr res \<longrightarrow>
        max_female_dict res = dict \<and> prop_series res = prop \<and> prop_df res = m)"
proof (cases "female_winners rows = []")
  case True
  let ?m = "zeros_matrix (unique (map decade rows)) (unique (map category rows))"
  have q: "female_query rows = Inr ((1900, Str ''Unknown''), [], ?m)"
    using True by (rule female_query_empty)
  have 1: "\<forall>d c. c \<noteq> Null \<and> 0 < total_pair_count rows d c \<longrightarrow>
        map_of (m_data ?m) (Num d, c) =
          Some (of_nat (female_pair_count rows d c) / of_nat (total_pair_count rows d c)) \<and>
        (female_winners rows \<noteq> [] \<longrightarrow> map_of [] (d, c) =
          Some (of_nat (female_pair_count rows d c) / of_nat (total_pair_count rows d c)))"
  proof (intro allI impI)
    fix d c
    assume "c \<noteq> Null \<and> 0 < total_pair_count rows d c"
    then obtain r where "r \<in> set rows" "decade r = Num d" "category r = c"
      by (auto simp: total_pair_count_pos)
    then have "Num d \<in> set (map decade rows)" "c \<in> set (map category rows)"
      by force+
    then show "map_of (m_data ?m) (Num d, c) =
          Some (of_nat (female_pair_count rows d c) / of_nat (total_pair_count rows d c)) \<and>
        (female_winners rows \<noteq> [] \<longrightarrow> map_of [] (d, c) =
          Some (of_nat (female_pair_count rows d c) / of_nat (total_pair_count rows d c)))"
      using True by (simp add: map_of_zeros_matrix no_female_count)
  qed
  have 2: "\<forall>d c. total_pair_count rows d c = 0 \<longrightarrow>
        map_of [] (d, c) = (None :: rat option) \<and>
        (Num d \<in> set (m_index ?m) \<and> c \<in> set (m_columns ?m) \<longrightarrow>
           map_of (m_data ?m) (Num d, c) = Some 0)"
    by (simp add: map_of_zeros_matrix) (simp add: zeros_matrix_def)
  have 3: "\<forall>res. aggregate v rows = Inr res \<longrightarrow>
        max_female_dict res = (1900, Str ''Unknown'') \<and> prop_series res = [] \<and> prop_df res = ?m"
    using q by (auto simp: aggregate_def bind_err_Inr_iff)
  show ?thesis
    by (intro exI[of _ "(1900, Str ''Unknown'')"] exI[of _ "[]"] exI[of _ ?m] conjI q 1 2 3)
       (simp add: True)
next
  case False
  let ?p = "prop_of rows"
  let ?m = "unstack_fillna0 ?p"
  from female_query_nonempty[OF False] obtain dict where
    q: "female_query rows = Inr (dict, ?p, ?m)" and
    mx: "?p \<noteq> [] \<longrightarrow> (\<exists>mx. map_of ?p dict = Some mx \<and> (\<forall>k v. map_of ?p k = Some v \<longrightarrow> v \<le> mx))"
    by blast
  have key: "d \<in> (\<lambda>kv. fst (fst kv)) ` set ?p \<and> c \<in> (\<lambda>kv. snd (fst kv)) ` set ?p"
    if "(d, c) \<in> set (pair_keys rows)" for d c
  proof -
    from that have "(d, c) \<in> fst ` set ?p" by (simp add: keys_prop)
    then show ?thesis by force
  qed
  have 1: "\<forall>d c. c \<noteq> Null \<and> 0 < total_pair_count rows d c \<longrightarrow>
        map_of (m_data ?m) (Num d, c) =
          Some (of_nat (female_pair_count rows d c) / of_nat (total_pair_count rows d c)) \<and>
        (female_winners rows \<noteq> [] \<longrightarrow> map_of ?p (d, c) =
          Some (of_nat (female_pair_count rows d c) / of_nat (total_pair_count rows d c)))"
  proof (intro allI impI)
    fix d c
    assume a: "c \<noteq> Null \<and> 0 < total_pair_count rows d c"
    then have k: "(d, c) \<in> set (pair_keys rows)"
      by (simp add: in_pair_keys total_pair_count_pos)
    from key[OF k] k show "map_of (m_data ?m) (Num d, c) =
          Some (of_nat (female_pair_count rows d c) / of_nat (total_pair_count rows d c)) \<and>
        (female_winners rows \<noteq> [] \<longrightarrow> map_of ?p (d, c) =
          Some (of_nat (female_pair_count rows d c) / of_nat (total_pair_count rows d c)))"
      by (simp add: map_of_unstack map_of_prop)
  qed
  have 2: "\<forall>d c. total_pair_count rows d c = 0 \<longrightarrow>
        map_of ?p (d, c) = None \<and>
        (Num d \<in> set (m_index ?m) \<and> c \<in> set (m_columns ?m) \<longrightarrow>
           map_of (m_data ?m) (Num d, c) = Some 0)"
  proof (intro allI impI)
    fix d c
    assume a: "total_pair_count rows d c = 0"
    then have k: "(d, c) \<notin> set (pair_keys rows)"
      using total_pair_count_pos[of rows d c] by (auto simp: in_pair_keys)
    then have n: "map_of ?p (d, c) = None" by (simp add: map_of_prop)
    then show "map_of ?p (d, c) = None \<and>
        (Num d \<in> set (m_index ?m) \<and> c \<in> set (m_columns ?m) \<longrightarrow>
           map_of (m_data ?m) (Num d, c) = Some 0)"
      by (simp add: index_unstack columns_unstack map_of_unstack)
  qed
  have 3: "female_winners rows \<noteq> [] \<and> ?p \<noteq> [] \<longrightarrow>
        (\<exists>mx. map_of ?p dict = Some mx \<and> (\<forall>k v. map_of ?p k = Some v \<longrightarrow> v \<le> mx))"
    using mx by blast
  have 4: "\<forall>res. aggregate v rows = Inr res \<longrightarrow>
        max_female_dict res = dict \<and> prop_series res = ?p \<and> prop_df res = ?m"
    using q by (auto simp: aggregate_def bind_err_Inr_iff)
  show ?thesis
    by (intro exI[of _ dict] exI[of _ ?p] exI[of _ ?m] conjI q 1 2 3 4)
qed


theorem female_proportion_witness:
  "Str ''Physics'' \<noteq> Null \<and> 0 < total_pair_count example_rows 1900 (Str ''Physics'') \<and>
   female_winners example_rows \<noteq> [] \<and>
   map_of (m_data (snd (snd (projr (female_query example_rows))))) (Num 1900, Str ''Physics'') = Some 1 \<and>
   map_of (fst (snd (projr (female_query example_rows)))) (1900, Str ''Physics'') = Some 1 \<and>
   total_pair_count example_rows 1900 (Str ''Chemistry'') = 0 \<and>
   Num 1900 \<in> set (m_index (snd (snd (projr (female_query example_rows))))) \<and>
   Str ''Chemistry'' \<in> set (m_columns (snd (snd (projr (female_query example_rows))))) \<and>
   map_of (fst (snd (projr (female_query example_rows)))) (1900, Str ''Chemistry'') = None \<and>
   map_of (m_data (snd (snd (projr (female_query example_rows))))) (Num 1900, Str ''Chemistry'') = Some 0 \<and>
   fst (snd (projr (female_query example_rows))) \<noteq> [] \<and>
   fst (projr (female_query example_rows)) = (1900, Str ''Physics'') \<and>
   aggregate Pandas2 example_rows = Inr (projr (aggregate Pandas2 example_rows)) \<and>
   max_female_dict (projr (aggregate Pandas2 example_rows)) = (1900, Str ''Physics'') \<and>
   aggregate Pandas3 example_rows = Inr (projr (aggregate Pandas3 example_rows)) \<and>
   max_female_dict (projr (aggregate Pandas3 example_rows)) = (1900, Str ''Physics'')"
proof -
  from female_proportion[where rows = example_rows and v = Pandas2] obtain dict ps m where
    q: "female_query example_rows = Inr (dict, ps, m)" and
    1: "\<forall>d c. c \<noteq> Null \<and> 0 < total_pair_count example_rows d c \<longrightarrow>
        map_of (m_data m) (Num d, c) =
          Some (of_nat (female_pair_count example_rows d c) / of_nat (total_pair_count example_rows d c)) \<and>
        (female_winners example_rows \<noteq> [] \<longrightarrow> map_of ps (d, c) =
          Some (of_nat (female_pair_count example_rows d c) / of_nat (total_pair_count example_rows d c)))" and
    2: "\<forall>d c. total_pair_count example_rows d c = 0 \<longrightarrow>
        map_of ps (d, c) = None \<and>
        (Num d \<in> set (m_index m) \<and> c \<in> set (m_columns m) \<longrightarrow>
           map_of (m_data m) (Num d, c) = Some 0)" and
    4: "\<forall>res. aggregate Pandas2 example_rows = Inr res \<longrightarrow>
        max_female_dict res = dict \<and> prop_series res = ps \<and> prop_df res = m"
    by blast
  from female_proportion[where rows = example_rows and v = Pandas3] obtain dict' ps' m' where
    q': "female_query example_rows = Inr (dict', ps', m')" and
    r4: "\<forall>res. aggregate Pandas3 example_rows = Inr res \<longrightarrow>
        max_female_dict res = dict' \<and> prop_series res = ps' \<and> prop_df res = m'"
    by blast
  have c: "total_pair_count example_rows 1900 (Str ''Physics'') = 1"
          "female_pair_count example_rows 1900 (Str ''Physics'') = 1"
          "total_pair_count example_rows 1900 (Str ''Chemistry'') = 0"
    by code_simp+
  have f: "female_winners example_rows \<noteq> []" by code_simp
  have ic: "Num 1900 \<in> set (m_index (snd (snd (projr (female_query example_rows)))))"
           "Str ''Chemistry'' \<in> set (m_columns (snd (snd (projr (female_query example_rows)))))"
    by code_simp+
  have d: "fst (projr (female_query example_rows)) = (1900, Str ''Physics'')"
    by code_simp
  have ne: "fst (snd (projr (female_query example_rows))) \<noteq> []" by code_simp
  have "\<not> isl (aggregate Pandas2 example_rows)" by code_simp
  then have a2: "aggregate Pandas2 example_rows = Inr (projr (aggregate Pandas2 example_rows))"
    by (cases "aggregate Pandas2 example_rows") simp_all
  have "\<not> isl (aggregate Pandas3 example_rows)" by code_simp
  then have a3: "aggregate Pandas3 example_rows = Inr (projr (aggregate Pandas3 example_rows))"
    by (cases "aggregate Pandas3 example_rows") simp_all
  have p1: "map_of (m_data m) (Num 1900, Str ''Physics'') = Some 1"
           "map_of ps (1900, Str ''Physics'') = Some 1"
    using 1[rule_format, of "Str ''Physics''" 1900] c f by simp_all
  have p2: "map_of ps (1900, Str ''Chemistry'') = None"
           "map_of (m_data m) (Num 1900, Str ''Chemistry'') = Some 0"
    using 2[rule_format, of 1900 "Str ''Chemistry''"] c ic q by simp_all
  have p3: "max_female_dict (projr (aggregate Pandas2 example_rows)) = (1900, Str ''Physics'')"
    using 4[rule_format, OF a2] d q by simp
  have p4: "max_female_dict (projr (aggregate Pandas3 example_rows)) = (1900, Str ''Physics'')"
    using r4[rule_format, OF a3] d q' by simp
  show ?thesis
    using q p1 p2 p3 p4 c f ic d ne a2 a3 by simp
qed

text \<open>
  Claim C3 as stated fails: no record has decade 1900 and category Chemistry, and the
  matrix reports 0 for the pair.
\<close>

theorem female_proportion_counterexample:
  "\<not> isl (pipeline Pandas2 example_frame) \<and>
   total_pair_count (nobel (projr (pipeline Pandas2 example_frame))) 1900 (Str ''Chemistry'') = 0 \<and>
   map_of (m_data (prop_df (projr (pipeline Pandas2 example_frame)))) (Num 1900, Str ''Chemistry'') = Some 0 \<and>
   \<not> isl (pipeline Pandas3 example_frame) \<and>
   total_pair_count (nobel (projr (pipeline Pandas3 example_frame))) 1900 (Str ''Chemistry'') = 0 \<and>
   map_of (m_data (prop_df (projr (pipeline Pandas3 example_frame)))) (Num 1900, Str ''Chemistry'') = Some 0"
  by code_simp

section \<open>Claim C2: repeat winners\<close>

lemma isna_iff: "isna c \<longleftrightarrow> c = Null"
  by (cases c) simp_all

lemma count_list_filter: "count_list (filter P xs) x = (if P x then count_list xs x else 0)"
  by (induction xs) auto

lemma count_list_map_length: "count_list (map f xs) y = length (filter (\<lambda>x. f x = y) xs)"
  by (induction xs) auto

lemma set_value_counts:
  "set (value_counts cs) =
     (\<lambda>v. (v, count_list (filter (\<lambda>c. \<not> isna c) cs) v)) ` set (filter (\<lambda>c. \<not> isna c) cs)"
  by (simp add: value_counts_def Let_def)

lemma sorted_value_counts:
  "sorted_wrt (\<lambda>a b. snd b \<le> snd a) (value_counts cs)"
proof -
  have "sorted (map (\<lambda>vn. - int (snd vn)) (value_counts cs))"
    unfolding value_counts_def Let_def by (rule sorted_sort_key)
  then show ?thesis by (simp add: sorted_map)
qed

lemma in_repeat_counts:
  "(name, n) \<in> set (repeat_counts rows) \<longleftrightarrow>
     name \<noteq> Null \<and> name \<in> full_name ` set rows \<and> n = occurrences rows name"
  by (auto simp: repeat_counts_def set_value_counts count_list_filter count_list_map_length
        occurrences_def isna_iff)

lemma in_repeat_list:
  "name \<in> set (repeat_list_of rows) \<longleftrightarrow> name \<noteq> Null \<and> 1 < occurrences rows name"
proof -
  have "name \<notin> full_name ` set rows \<Longrightarrow> occurrences rows name = 0"
    by (auto simp: occurrences_def filter_empty_conv)
  then have "1 < occurrences rows name \<Longrightarrow> name \<in> full_name ` set rows"
    by (cases "name \<in> full_name ` set rows") simp_all
  then show ?thesis
    by (auto simp: repeat_list_of_def in_repeat_counts image_iff)
qed


lemma sorted_repeat_list:
  "sorted_wrt (\<lambda>a b. occurrences rows b \<le> occurrences rows a) (repeat_list_of rows)"
proof -
  let ?L = "filter (\<lambda>vn. 1 < snd vn) (repeat_counts rows)"
  have "sorted_wrt (\<lambda>a b. snd b \<le> snd a) ?L"
    unfolding repeat_counts_def by (intro sorted_wrt_filter sorted_value_counts)
  then have "sorted_wrt (\<lambda>a b. occurrences rows (fst b) \<le> occurrences rows (fst a)) ?L"
  proof (rule sorted_wrt_mono_rel[rotated])
    fix a b
    assume "a \<in> set ?L" "b \<in> set ?L" "snd b \<le> snd a"
    then show "occurrences rows (fst b) \<le> occurrences rows (fst a)"
      using in_repeat_counts[of "fst a" "snd a" rows] in_repeat_counts[of "fst b" "snd b" rows]
      by simp
  qed
  then show ?thesis
    by (simp add: repeat_list_of_def sorted_wrt_map)
qed

lemma first_pos_Cons:
  "first_pos (x # xs) a = (if a = x then 0 else Suc (first_pos xs a))"
  by (auto simp: first_pos_def)

lemma unique_first_occurrence:
  "sorted_wrt (\<lambda>a b. first_pos xs a < first_pos xs b) (unique xs)"
proof (induction xs)
  case Nil
  show ?case by simp
next
  case (Cons x xs)
  have "sorted_wrt (\<lambda>a b. first_pos xs a < first_pos xs b) (filter (\<lambda>y. y \<noteq> x) (unique xs))"
    using Cons.IH by (rule sorted_wrt_filter)
  then have "sorted_wrt (\<lambda>a b. first_pos (x # xs) a < first_pos (x # xs) b)
               (filter (\<lambda>y. y \<noteq> x) (unique xs))"
    by (rule sorted_wrt_mono_rel[rotated]) (auto simp: first_pos_Cons)
  then show ?case
    by (auto simp: first_pos_Cons)
qed

lemma count_list_insort_key:
  "count_list (insort_key f x xs) y = count_list (x # xs) y"
  by (induction xs) auto

lemma count_list_sort_key: "count_list (sort_key f xs) y = count_list xs y"
  by (induction xs) (auto simp: count_list_insort_key)

lemma nums_sorted:
  assumes "sorted (map cell_key cs)" and "\<forall>c\<in>set cs. \<exists>y. c = Num y"
  shows "\<exists>ys. cs = map Num ys \<and> sorted ys"
  using assms
proof (induction cs)
  case Nil
  show ?case by simp
next
  case (Cons c cs)
  then obtain ys where ys: "cs = map Num ys" "sorted ys" by auto
  from Cons.prems(2) obtain y where y: "c = Num y" by auto
  from Cons.prems(1) have "\<forall>z\<in>set ys. y \<le> z"
    by (auto simp: y ys less_eq_prod_def)
  with ys y have "c # cs = map Num (y # ys) \<and> sorted (y # ys)" by simp
  then show ?case by (rule exI[of _ "y # ys"])
qed

lemma py_join_strs: "list_all is_str cs \<Longrightarrow> \<exists>t. py_join sep cs = Inr t"
proof (induction sep cs rule: py_join.induct)
  case (3 sep s c cs)
  then show ?case by (auto simp: bind_err_def)
qed auto


lemma map_of_unique_value:
  assumes "(k, v) \<in> set xs" and "\<And>v'. (k, v') \<in> set xs \<Longrightarrow> v' = v"
  shows "map_of xs k = Some v"
proof -
  from assms(1) obtain v' where "map_of xs k = Some v'"
    by (metis weak_map_of_SomeI)
  moreover from this have "v' = v" by (auto dest: map_of_SomeD assms(2))
  ultimately show ?thesis by simp
qed

lemma map_of_repeat_counts:
  "map_of (repeat_counts rows) name =
     (if name \<noteq> Null \<and> name \<in> full_name ` set rows then Some (occurrences rows name) else None)"
proof (cases "name \<noteq> Null \<and> name \<in> full_name ` set rows")
  case True
  then have "(name, occurrences rows name) \<in> set (repeat_counts rows)"
    by (simp add: in_repeat_counts)
  then have "map_of (repeat_counts rows) name = Some (occurrences rows name)"
    by (rule map_of_unique_value) (simp add: in_repeat_counts)
  with True show ?thesis by simp
next
  case False
  then have "map_of (repeat_counts rows) name = None"
    by (auto simp: map_of_eq_None_iff in_repeat_counts)
  with False show ?thesis by auto
qed

lemma repeat_entry_Inr:
  assumes "repeat_entry rows name = Inr e"
  shows "\<exists>joined. e = (name, occurrences rows name, cats_of rows name, years_of rows name, joined)"
  using assms
  by (auto simp: repeat_entry_def wins_of_def bind_err_Inr_iff map_of_repeat_counts
           split: option.splits if_splits)

lemma repeat_entry_ok:
  assumes "name \<in> set (repeat_list_of rows)" and "list_all is_str (cats_of rows name)"
  shows "\<exists>joined. repeat_entry rows name =
           Inr (name, occurrences rows name, cats_of rows name, years_of rows name, joined)"
proof -
  from assms(1) have n: "name \<noteq> Null" "1 < occurrences rows name"
    by (simp_all add: in_repeat_list)
  have "name \<notin> full_name ` set rows \<Longrightarrow> occurrences rows name = 0"
    by (auto simp: occurrences_def filter_empty_conv)
  with n have "name \<in> full_name ` set rows"
    by (cases "name \<in> full_name ` set rows") simp_all
  with n have w: "wins_of rows name (repeat_counts rows) = Inr (occurrences rows name)"
    by (simp add: wins_of_def map_of_repeat_counts)
  from py_join_strs[OF assms(2)] obtain t where "py_join '', '' (cats_of rows name) = Inr t"
    by blast
  with w show ?thesis by (simp add: repeat_entry_def bind_err_def)
qed

lemma repeat_report_Inr:
  assumes "repeat_report rows = Inr rr"
  shows "map (\<lambda>e. (fst e, fst (snd e), fst (snd (snd e)), fst (snd (snd (snd e))))) rr =
         map (\<lambda>n. (n, occurrences rows n, cats_of rows n, years_of rows n)) (repeat_list_of rows)"
proof -
  from assms have "list_all2 (\<lambda>m x. m = Inr x) (map (repeat_entry rows) (repeat_list_of rows)) rr"
    unfolding repeat_report_def by (rule sequence_err_Inr)
  then have "list_all2 (\<lambda>n e. repeat_entry rows n = Inr e) (repeat_list_of rows) rr"
    by (simp add: list_all2_map1)
  then have "list_all2 (\<lambda>n e. (fst e, fst (snd e), fst (snd (snd e)), fst (snd (snd (snd e)))) =
                 (n, occurrences rows n, cats_of rows n, years_of rows n)) (repeat_list_of rows) rr"
    by (rule list_all2_mono) (auto dest: repeat_entry_Inr)
  then show ?thesis
    by (induction rule: list_all2_induct) auto
qed

lemma years_of_sorted:
  assumes "\<forall>r\<in>set rows. full_name r = name \<longrightarrow> (\<exists>y. year r = Num y)"
  shows "\<exists>ys. years_of rows name = map Num ys \<and> sorted ys"
proof (rule nums_sorted)
  show "sorted (map cell_key (years_of rows name))"
    unfolding years_of_def by (rule sorted_sort_key)
  show "\<forall>c\<in>set (years_of rows name). \<exists>y. c = Num y"
    using assms by (auto simp: years_of_def)
qed

text \<open>
  Claim C2. A name is in \<^verbatim>\<open>repeat_list\<close> exactly if it is the \<open>full_name\<close> of more than
  one record (a null \<open>full_name\<close> is no name); \<^verbatim>\<open>repeat_list\<close> is in order of descending
  count; for every name the categories reported are the distinct categories of its
  records in order of first occurrence, and the years reported are the years of its
  records in ascending order (for a winner whose years are all present). In the
  scenario of the specification \<^verbatim>\<open>repeat_list\<close> is \<^verbatim>\<open>["A"]\<close> with years 1990, 2000 and
  categories Physics, Chemistry.
\<close>

theorem repeat_winners:
  "(name \<in> set (repeat_list_of rows) \<longleftrightarrow> name \<noteq> Null \<and> 1 < occurrences rows name) \<and>
   sorted_wrt (\<lambda>a b. occurrences rows b \<le> occurrences rows a) (repeat_list_of rows) \<and>
   distinct (cats_of rows name) \<and>
   set (cats_of rows name) = category ` {r \<in> set rows. full_name r = name} \<and>
   sorted_wrt (\<lambda>a b. first_pos (map category (filter (\<lambda>r. full_name r = name) rows)) a
                     < first_pos (map category (filter (\<lambda>r. full_name r = name) rows)) b)
              (cats_of rows name) \<and>
   ((\<forall>r\<in>set rows. full_name r = name \<longrightarrow> (\<exists>y. year r = Num y)) \<longrightarrow>
      (\<exists>ys. years_of rows name = map Num ys \<and> sorted ys)) \<and>
   (\<forall>c. count_list (years_of rows name) c =
          count_list (map year (filter (\<lambda>r. full_name r = name) rows)) c) \<and>
   (name \<in> set (repeat_list_of rows) \<and> list_all is_str (cats_of rows name) \<longrightarrow>
      (\<exists>joined. repeat_entry rows name =
         Inr (name, occurrences rows name, cats_of rows name, years_of rows name, joined))) \<and>
   (\<forall>res. aggregate v rows = Inr res \<longrightarrow>
      repeat_list res = repeat_list_of rows \<and>
      map (\<lambda>e. (fst e, fst (snd e), fst (snd (snd e)), fst (snd (snd (snd e))))) (repeat_lines res) =
      map (\<lambda>n. (n, occurrences rows n, cats_of rows n, years_of rows n)) (repeat_list_of rows)) \<and>
   \<not> isl (pipeline v repeat_frame) \<and>
   repeat_list (projr (pipeline v repeat_frame)) = [Str ''A''] \<and>
   map (\<lambda>e. (fst (snd (snd e)), fst (snd (snd (snd e))))) (repeat_lines (projr (pipeline v repeat_frame))) =
     [([Str ''Physics'', Str ''Chemistry''], [Num 1990, Num 2000])]"
proof -
  have 1: "name \<in> set (repeat_list_of rows) \<longleftrightarrow> name \<noteq> Null \<and> 1 < occurrences rows name"
    by (rule in_repeat_list)
  have 2: "sorted_wrt (\<lambda>a b. occurrences rows b \<le> occurrences rows a) (repeat_list_of rows)"
    by (rule sorted_repeat_list)
  have 3: "distinct (cats_of rows name)"
    by (simp add: cats_of_def)
  have 4: "set (cats_of rows name) = category ` {r \<in> set rows. full_name r = name}"
    by (auto simp: cats_of_def)
  have 5: "sorted_wrt (\<lambda>a b. first_pos (map category (filter (\<lambda>r. full_name r = name) rows)) a
                     < first_pos (map category (filter (\<lambda>r. full_name r = name) rows)) b)
              (cats_of rows name)"
    unfolding cats_of_def by (rule unique_first_occurrence)
  have 6: "(\<forall>r\<in>set rows. full_name r = name \<longrightarrow> (\<exists>y. year r = Num y)) \<longrightarrow>
      (\<exists>ys. years_of rows name = map Num ys \<and> sorted ys)"
    using years_of_sorted by blast
  have 7: "\<forall>c. count_list (years_of rows name) c =
          count_list (map year (filter (\<lambda>r. full_name r = name) rows)) c"
    by (simp add: years_of_def count_list_sort_key)
  have 8: "name \<in> set (repeat_list_of rows) \<and> list_all is_str (cats_of rows name) \<longrightarrow>
      (\<exists>joined. repeat_entry rows name =
         Inr (name, occurrences rows name, cats_of rows name, years_of rows name, joined))"
    using repeat_entry_ok by blast
  have 9: "\<forall>res. aggregate v rows = Inr res \<longrightarrow>
      repeat_list res = repeat_list_of rows \<and>
      map (\<lambda>e. (fst e, fst (snd e), fst (snd (snd e)), fst (snd (snd (snd e))))) (repeat_lines res) =
      map (\<lambda>n. (n, occurrences rows n, cats_of rows n, years_of rows n)) (repeat_list_of rows)"
    by (auto simp: aggregate_def bind_err_Inr_iff dest: repeat_report_Inr)
  have r2: "\<not> isl (pipeline Pandas2 repeat_frame)"
    "repeat_list (projr (pipeline Pandas2 repeat_frame)) = [Str ''A'']"
    "map (\<lambda>e. (fst (snd (snd e)), fst (snd (snd (snd e)))))
         (repeat_lines (projr (pipeline Pandas2 repeat_frame))) =
     [([Str ''Physics'', Str ''Chemistry''], [Num 1990, Num 2000])]"
    by code_simp+
  have r3: "\<not> isl (pipeline Pandas3 repeat_frame)"
    "repeat_list (projr (pipeline Pandas3 repeat_frame)) = [Str ''A'']"
    "map (\<lambda>e. (fst (snd (snd e)), fst (snd (snd (snd e)))))
         (repeat_lines (projr (pipeline Pandas3 repeat_frame))) =
     [([Str ''Physics'', Str ''Chemistry''], [Num 1990, Num 2000])]"
    by code_simp+
  have 10: "\<not> isl (pipeline v repeat_frame)"
    using r2(1) r3(1) by (cases v) simp_all
  have 11: "repeat_list (projr (pipeline v repeat_frame)) = [Str ''A'']"
    using r2(2) r3(2) by (cases v) simp_all
  have 12: "map (\<lambda>e. (fst (snd (snd e)), fst (snd (snd (snd e))))) (repeat_lines (projr (pipeline v repeat_frame))) =
     [([Str ''Physics'', Str ''Chemistry''], [Num 1990, Num 2000])]"
    using r2(3) r3(3) by (cases v) simp_all
  show ?thesis
    by (intro conjI 1 2 3 4 5 6 7 8 9 10 11 12)
qed


theorem repeat_winners_witness:
  "load_table repeat_frame_unsorted = Inr repeat_rows_unsorted \<and>
   Str ''A'' \<in> set (repeat_list_of repeat_rows_unsorted) \<and>
   Str ''A'' \<noteq> Null \<and> 1 < occurrences repeat_rows_unsorted (Str ''A'') \<and>
   map year (filter (\<lambda>r. full_name r = Str ''A'') repeat_rows_unsorted) = [Num 2000, Num 1990] \<and>
   years_of repeat_rows_unsorted (Str ''A'') = map Num [1990, 2000] \<and> sorted [1990, 2000 :: int] \<and>
   cats_of repeat_rows_unsorted (Str ''A'') = [Str ''Physics'', Str ''Chemistry''] \<and>
   list_all is_str (cats_of repeat_rows_unsorted (Str ''A'')) \<and>
   repeat_entry repeat_rows_unsorted (Str ''A'') =
     Inr (Str ''A'', 2, [Str ''Physics'', Str ''Chemistry''], [Num 1990, Num 2000], ''Physics, Chemistry'') \<and>
   aggregate Pandas2 repeat_rows_unsorted = Inr (projr (aggregate Pandas2 repeat_rows_unsorted)) \<and>
   repeat_list (projr (aggregate Pandas2 repeat_rows_unsorted)) = [Str ''A''] \<and>
   aggregate Pandas3 repeat_rows_unsorted = Inr (projr (aggregate Pandas3 repeat_rows_unsorted)) \<and>
   repeat_list (projr (aggregate Pandas3 repeat_rows_unsorted)) = [Str ''A'']"
proof -
  let ?R = repeat_rows_unsorted
  note t = repeat_winners[where name = "Str ''A''" and rows = ?R and v = Pandas2]
  note t3 = repeat_winners[where name = "Str ''A''" and rows = ?R and v = Pandas3]
  have l: "load_table repeat_frame_unsorted = Inr ?R" by code_simp
  have o: "1 < occurrences ?R (Str ''A'')" by code_simp
  with t have m: "Str ''A'' \<in> set (repeat_list_of ?R)" by simp
  have ys: "map year (filter (\<lambda>r. full_name r = Str ''A'') ?R) = [Num 2000, Num 1990]"
    by (simp add: repeat_rows_unsorted_def)
  have h: "\<forall>r\<in>set ?R. full_name r = Str ''A'' \<longrightarrow> (\<exists>y. year r = Num y)"
    by (simp add: repeat_rows_unsorted_def)
  with t obtain zs where zs: "years_of ?R (Str ''A'') = map Num zs" "sorted zs" by blast
  have y: "years_of ?R (Str ''A'') = [Num 1990, Num 2000]" by code_simp
  have c: "cats_of ?R (Str ''A'') = [Str ''Physics'', Str ''Chemistry'']" by code_simp
  then have s: "list_all is_str (cats_of ?R (Str ''A''))" by simp
  from t m s obtain joined where
    e: "repeat_entry ?R (Str ''A'') =
          Inr (Str ''A'', occurrences ?R (Str ''A''), cats_of ?R (Str ''A''), years_of ?R (Str ''A''), joined)"
    by blast
  have e2: "fst (snd (projr (repeat_entry ?R (Str ''A'')))) = 2"
           "snd (snd (snd (snd (projr (repeat_entry ?R (Str ''A'')))))) = ''Physics, Chemistry''"
    by code_simp+
  have "\<not> isl (aggregate Pandas2 ?R)" by code_simp
  then have a: "aggregate Pandas2 ?R = Inr (projr (aggregate Pandas2 ?R))"
    by (cases "aggregate Pandas2 ?R") simp_all
  with t have rl: "repeat_list (projr (aggregate Pandas2 ?R)) = repeat_list_of ?R" by blast
  have "\<not> isl (aggregate Pandas3 ?R)" by code_simp
  then have a3: "aggregate Pandas3 ?R = Inr (projr (aggregate Pandas3 ?R))"
    by (cases "aggregate Pandas3 ?R") simp_all
  with t3 have rl3: "repeat_list (projr (aggregate Pandas3 ?R)) = repeat_list_of ?R" by blast
  have rl2: "repeat_list_of ?R = [Str ''A'']" by code_simp
  show ?thesis
    using l m o ys y c s e e2 a rl a3 rl3 rl2 zs by simp
qed

section \<open>Tables of well-formed frames\<close>

lemma find_variant_in_frame:
  "find_variant df vs = Some c \<Longrightarrow> \<exists>v. (v, c) \<in> set df"
  by (induction vs) (auto split: option.splits dest: map_of_SomeD)

lemma wf_frame_length:
  "wf_frame df \<Longrightarrow> (v, c) \<in> set df \<Longrightarrow> length (cells c) = nrows df"
  by (auto simp: wf_frame_def list_all_iff)

lemma length_mapped_col:
  assumes "wf_frame df"
  shows "length (cells (mapped_col df vs)) = nrows df"
proof (cases "find_variant df vs")
  case None
  then show ?thesis by (simp add: mapped_col_def)
next
  case (Some c)
  from find_variant_in_frame[OF Some] obtain v where "(v, c) \<in> set df" by blast
  from wf_frame_length[OF assms this] Some show ?thesis by (simp add: mapped_col_def)
qed

lemma length_name_pair:
  assumes "wf_frame df" and "name_pair df = Some (g, f)"
  shows "length (cells g) = nrows df \<and> length (cells f) = nrows df"
proof -
  from assms(2) have "(\<exists>v. (v, g) \<in> set df) \<and> (\<exists>v. (v, f) \<in> set df)"
    by (auto simp: name_pair_def split: option.splits dest: map_of_SomeD)
  with assms(1) show ?thesis by (auto dest: wf_frame_length)
qed

lemma length_name_source:
  assumes "wf_frame df" and "name_source df = Inr fn"
  shows "length (cells fn) = nrows df"
proof (cases "name_pair df")
  case None
  with assms show ?thesis by (auto simp: name_source_pair length_mapped_col)
next
  case (Some gf)
  obtain g f where gf: "gf = (g, f)" by (cases gf)
  from assms(2) Some gf have "combine_names g f = Inr fn" by (simp add: name_source_pair)
  from combine_names_Inr[OF this] length_name_pair[OF assms(1)] Some gf show ?thesis by simp
qed

lemma length_decade_col: "decade_col yc = Inr dc \<Longrightarrow> length (cells dc) = length (cells yc)"
  by (drule decade_col_rel) (simp add: list_all2_lengthD)

text \<open>The rows of the table on a well-formed frame: one for every row of the input.\<close>

lemma load_table_wf:
  assumes "load_table df = Inr rows" and "wf_frame df"
  shows "length rows = nrows df \<and>
         (\<forall>i<nrows df.
            year (rows ! i) = cells (mapped_col df (aliases ''year'')) ! i \<and>
            category (rows ! i) = cells (mapped_col df (aliases ''category'')) ! i \<and>
            decade_cell (decade_op (mapped_col df (aliases ''year''))) (year (rows ! i)) =
              Inr (decade (rows ! i)) \<and>
            is_str (sex (rows ! i)) \<and> is_str (birth_country (rows ! i)) \<and>
            (find_variant df (aliases ''sex'') = None \<longrightarrow> sex (rows ! i) = Str ''unknown''))"
proof -
  let ?yc = "mapped_col df (aliases ''year'')"
  let ?bc = "mapped_col df (aliases ''birth_country'')"
  let ?cc = "mapped_col df (aliases ''category'')"
  let ?sc = "mapped_col df (aliases ''sex'')"
  from load_table_rows[OF assms(1)] obtain cs fn ns dc where
    cs: "str_accessor ?sc = Inr cs" and
    fn: "name_source df = Inr fn" and ns: "str_accessor fn = Inr ns" and
    dc: "decade_col ?yc = Inr dc" and
    rows: "rows = mk_rows (cells ?yc) (map str_strip ns) (cells (sex_col cs))
                    (cells (country_col ?bc)) (cells ?cc) (cells dc)"
    by blast
  from str_accessor_Inr[OF cs] have csc: "cells ?sc = cs" by simp
  from str_accessor_Inr[OF ns] have nsc: "cells fn = ns" by simp
  have len: "length (cells ?yc) = nrows df" "length ns = nrows df" "length cs = nrows df"
            "length (cells ?bc) = nrows df" "length (cells ?cc) = nrows df"
            "length (cells dc) = nrows df"
    using length_name_source[OF assms(2) fn] length_decade_col[OF dc] nsc
          length_mapped_col[OF assms(2), of "aliases ''sex''"] csc
    by (simp_all add: length_mapped_col[OF assms(2)])
  have l: "length rows = nrows df"
    by (simp add: rows length_mk_rows len length_sex_col length_country_col)
  have "year (rows ! i) = cells ?yc ! i \<and> category (rows ! i) = cells ?cc ! i \<and>
        decade_cell (decade_op ?yc) (year (rows ! i)) = Inr (decade (rows ! i)) \<and>
        is_str (sex (rows ! i)) \<and> is_str (birth_country (rows ! i)) \<and>
        (find_variant df (aliases ''sex'') = None \<longrightarrow> sex (rows ! i) = Str ''unknown'')"
    if i: "i < nrows df" for i
  proof -
    from i l have ir: "i < length (mk_rows (cells ?yc) (map str_strip ns) (cells (sex_col cs))
                    (cells (country_col ?bc)) (cells ?cc) (cells dc))"
      by (simp add: rows)
    note n = nth_mk_rows[OF ir]
    have y: "year (rows ! i) = cells ?yc ! i" and c: "category (rows ! i) = cells ?cc ! i"
      and d: "decade (rows ! i) = cells dc ! i"
      by (simp_all add: rows n)
    have dd: "decade_cell (decade_op ?yc) (year (rows ! i)) = Inr (decade (rows ! i))"
      using list_all2_nthD[OF decade_col_rel[OF dc], of i] i len by (simp add: y d)
    have sx: "sex (rows ! i) = (case cs ! i of Str s \<Rightarrow> Str (py_lower s) | _ \<Rightarrow> Str ''unknown'')"
      using i len by (simp add: rows n sex_col_cell)
    then have s: "is_str (sex (rows ! i))" by (cases "cs ! i") simp_all
    have bx: "birth_country (rows ! i) =
              (case cells ?bc ! i of Null \<Rightarrow> Str ''Unknown'' | x \<Rightarrow> astype_str (is_float_col ?bc) x)"
      using i len by (simp add: rows n country_col_cell)
    have b: "is_str (birth_country (rows ! i))"
      using astype_str_is_str[of "is_float_col ?bc" "cells ?bc ! i"]
      by (cases "cells ?bc ! i") (auto simp: bx)
    have u: "find_variant df (aliases ''sex'') = None \<longrightarrow> sex (rows ! i) = Str ''unknown''"
    proof
      assume "find_variant df (aliases ''sex'') = None"
      then have "cs = replicate (nrows df) Null"
        using csc by (simp add: mapped_col_def)
      with i show "sex (rows ! i) = Str ''unknown''" by (simp add: sx)
    qed
    from y c dd s b u show ?thesis by blast
  qed
  with l show ?thesis by blast
qed

lemma find_variant_None_iff:
  "find_variant df vs = None \<longleftrightarrow> (\<forall>v\<in>set vs. map_of df v = None)"
  by (induction vs) (auto split: option.splits)

lemma sex_col_not_all_null: "cs \<noteq> [] \<Longrightarrow> \<not> isna_all (sex_col cs)"
proof -
  assume "cs \<noteq> []"
  then have "0 < length cs" by simp
  from sex_col_cell[OF this] have "\<not> isna (cells (sex_col cs) ! 0)"
    by (cases "cs ! 0") simp_all
  moreover have "0 < length (cells (sex_col cs))"
    using \<open>0 < length cs\<close> by (simp add: length_sex_col)
  ultimately show ?thesis
    unfolding isna_all_def list_all_length by blast
qed

lemma Inl_eqI: "isl x \<Longrightarrow> projl x = e \<Longrightarrow> x = Inl e"
  by (cases x) simp_all

section \<open>Claim C1: the essential-column check\<close>

lemma mapped_col_absent:
  "find_variant df vs = None \<Longrightarrow> isna_all (mapped_col df vs)"
  by (simp add: mapped_col_def isna_all_def list_all_iff)

lemma pipeline_missing:
  assumes "normalize df = Inr nf" and "missing_cols nf \<noteq> []"
  shows "pipeline v df = Inl (ValueError (missing_cols nf))"
  using assms by (simp add: pipeline_def load_table_def check_essential_def bind_err_def)

lemma in_missing_cols:
  assumes "map_of nf c = Some col"
  shows "c \<in> set (missing_cols nf) \<longleftrightarrow> c \<in> set essential \<and> isna_all col"
  using assms by (auto simp: missing_cols_def)

text \<open>
  The check at work. If the normalised table has an essential field that is null in
  every row, the run aborts with the ValueError that lists exactly those fields, and
  there is no result. An input without any alias of \<open>year\<close>, \<open>birth_country\<close> or
  \<open>category\<close> aborts so, and so does an input without any alias of \<open>full_name\<close> and
  without a pair of name columns.
\<close>

lemma essential_check:
  assumes "normalize df = Inr nf"
  shows "(missing_cols nf \<noteq> [] \<longrightarrow> pipeline v df = Inl (ValueError (missing_cols nf))) \<and>
         (\<forall>c. c \<in> set (missing_cols nf) \<longleftrightarrow>
                c \<in> set essential \<and> (\<exists>col. map_of nf c = Some col \<and> isna_all col)) \<and>
         (\<forall>std\<in>{''year'', ''birth_country'', ''category''}.
             find_variant df (aliases std) = None \<longrightarrow>
               std \<in> set (missing_cols nf) \<and> pipeline v df = Inl (ValueError (missing_cols nf))) \<and>
         (find_variant df (aliases ''full_name'') = None \<and> name_pair df = None \<longrightarrow>
               ''full_name'' \<in> set (missing_cols nf) \<and>
               pipeline v df = Inl (ValueError (missing_cols nf)))"
proof -
  from normalize_Inr[OF assms] obtain cs fn ns where
    fn: "name_source df = Inr fn" and ns: "str_accessor fn = Inr ns" and
    y: "map_of nf ''year'' = Some (mapped_col df (aliases ''year''))" and
    b: "map_of nf ''birth_country'' = Some (mapped_col df (aliases ''birth_country''))" and
    c: "map_of nf ''category'' = Some (mapped_col df (aliases ''category''))" and
    s: "map_of nf ''sex'' = Some (sex_col cs)" and
    n: "map_of nf ''full_name'' = Some (ObjCol (map str_strip ns))"
    by blast
  have 1: "missing_cols nf \<noteq> [] \<longrightarrow> pipeline v df = Inl (ValueError (missing_cols nf))"
    using pipeline_missing[OF assms] by blast
  have 2: "c' \<in> set (missing_cols nf) \<longleftrightarrow>
             c' \<in> set essential \<and> (\<exists>col. map_of nf c' = Some col \<and> isna_all col)" for c'
  proof (cases "c' \<in> set essential")
    case True
    then obtain col where "map_of nf c' = Some col"
      using y b c s n by (auto simp: essential_def)
    then show ?thesis by (simp add: in_missing_cols)
  next
    case False
    then show ?thesis by (simp add: missing_cols_def)
  qed
  have ess: "''year'' \<in> set essential" "''birth_country'' \<in> set essential"
            "''category'' \<in> set essential" "''full_name'' \<in> set essential"
    by (simp_all add: essential_def)
  have m: "std \<in> set (missing_cols nf) \<Longrightarrow>
             std \<in> set (missing_cols nf) \<and> pipeline v df = Inl (ValueError (missing_cols nf))" for std
    using 1 by auto
  have 3: "\<forall>std\<in>{''year'', ''birth_country'', ''category''}.
             find_variant df (aliases std) = None \<longrightarrow>
               std \<in> set (missing_cols nf) \<and> pipeline v df = Inl (ValueError (missing_cols nf))"
  proof (intro ballI impI)
    fix std
    assume "std \<in> {''year'', ''birth_country'', ''category''}"
      and "find_variant df (aliases std) = None"
    then have "std \<in> set (missing_cols nf)"
      using y b c ess by (auto simp: in_missing_cols mapped_col_absent)
    then show "std \<in> set (missing_cols nf) \<and> pipeline v df = Inl (ValueError (missing_cols nf))"
      by (rule m)
  qed
  have 4: "find_variant df (aliases ''full_name'') = None \<and> name_pair df = None \<longrightarrow>
               ''full_name'' \<in> set (missing_cols nf) \<and>
               pipeline v df = Inl (ValueError (missing_cols nf))"
  proof
    assume a: "find_variant df (aliases ''full_name'') = None \<and> name_pair df = None"
    with fn have "fn = mapped_col df (aliases ''full_name'')"
      by (simp add: name_source_pair)
    with str_accessor_Inr[OF ns] a have "list_all isna ns"
      using mapped_col_absent[of df "aliases ''full_name''"] by (auto simp: isna_all_def)
    then have "isna_all (ObjCol (map str_strip ns))"
      by (induction ns) (auto simp: isna_all_def elim: isna.elims)
    with n ess have "''full_name'' \<in> set (missing_cols nf)"
      by (simp add: in_missing_cols)
    then show "''full_name'' \<in> set (missing_cols nf) \<and>
               pipeline v df = Inl (ValueError (missing_cols nf))"
      by (rule m)
  qed
  from 1 2 3 4 show ?thesis by blast
qed

text \<open>
  The field \<open>sex\<close> is never reported. Whatever the input holds, on a table with at least
  one row line 56 has left no null in \<open>sex\<close> when line 67 tests it.
\<close>

lemma sex_never_missing:
  assumes "normalize df = Inr nf" and "wf_frame df" and "0 < nrows df"
  shows "''sex'' \<notin> set (missing_cols nf)"
proof -
  from normalize_Inr[OF assms(1)] obtain cs where
    cs: "str_accessor (mapped_col df (aliases ''sex'')) = Inr cs" and
    s: "map_of nf ''sex'' = Some (sex_col cs)"
    by blast
  from str_accessor_Inr[OF cs] have "length cs = nrows df"
    using length_mapped_col[OF assms(2), of "aliases ''sex''"] by simp
  with assms(3) have "cs \<noteq> []" by auto
  then have "\<not> isna_all (sex_col cs)" by (rule sex_col_not_all_null)
  with s show ?thesis by (simp add: in_missing_cols)
qed

text \<open>
  Claim C1 says that the run aborts with the validation error that names the field when
  an essential field is null in the whole table, in particular when the input has no
  alias of the field. The script lists \<open>sex\<close> among the essential columns (line 66) and
  tests it (line 67), but \<^verbatim>\<open>map_columns\<close> has created the column and line 56 has filled
  it with \<^verbatim>\<open>unknown\<close> before. For the input without any alias of \<open>sex\<close> the check finds
  nothing missing and the run goes on with \<open>sex\<close> \<^verbatim>\<open>unknown\<close> in every record: to the end
  under pandas 2, to the heat map under pandas 3. For the input whose \<open>sex\<close> column is
  empty in every row the \<^verbatim>\<open>.str\<close> accessor of line 56 raises AttributeError before the
  check is reached. The input without any alias of the sibling field \<open>category\<close> is
  reported as the claim says.
\<close>

theorem missing_sex_not_reported:
  "find_variant no_sex_frame (aliases ''sex'') = None \<and>
   \<not> isl (normalize no_sex_frame) \<and>
   missing_cols (projr (normalize no_sex_frame)) = [] \<and>
   \<not> isl (load_table no_sex_frame) \<and>
   map sex (projr (load_table no_sex_frame)) = [Str ''unknown'', Str ''unknown''] \<and>
   \<not> isl (pipeline Pandas2 no_sex_frame) \<and>
   pipeline Pandas3 no_sex_frame = Inl TypeError \<and>
   find_variant blank_sex_frame (aliases ''sex'') = Some (NumCol [None, None]) \<and>
   normalize blank_sex_frame = Inl AttributeError \<and>
   pipeline Pandas2 blank_sex_frame = Inl AttributeError \<and>
   pipeline Pandas3 blank_sex_frame = Inl AttributeError \<and>
   find_variant no_category_frame (aliases ''category'') = None \<and>
   pipeline Pandas2 no_category_frame = Inl (ValueError [''category'']) \<and>
   pipeline Pandas3 no_category_frame = Inl (ValueError [''category''])"
proof -
  have a: "find_variant no_sex_frame (aliases ''sex'') = None"
          "\<not> isl (normalize no_sex_frame)"
          "missing_cols (projr (normalize no_sex_frame)) = []"
          "\<not> isl (load_table no_sex_frame)"
          "map sex (projr (load_table no_sex_frame)) = [Str ''unknown'', Str ''unknown'']"
          "\<not> isl (pipeline Pandas2 no_sex_frame)"
    by code_simp+
  have "isl (pipeline Pandas3 no_sex_frame)" "projl (pipeline Pandas3 no_sex_frame) = TypeError"
    by code_simp+
  then have b: "pipeline Pandas3 no_sex_frame = Inl TypeError" by (rule Inl_eqI)
  have c: "find_variant blank_sex_frame (aliases ''sex'') = Some (NumCol [None, None])"
    by code_simp
  have "isl (normalize blank_sex_frame)" "projl (normalize blank_sex_frame) = AttributeError"
    by code_simp+
  then have d: "normalize blank_sex_frame = Inl AttributeError" by (rule Inl_eqI)
  have e: "pipeline v blank_sex_frame = Inl AttributeError" for v
    by (simp add: pipeline_def load_table_def d bind_err_def)
  have f: "find_variant no_category_frame (aliases ''category'') = None" by code_simp
  have "\<not> isl (normalize no_category_frame)" by code_simp
  then have n: "normalize no_category_frame = Inr (projr (normalize no_category_frame))"
    by (cases "normalize no_category_frame") simp_all
  have m: "missing_cols (projr (normalize no_category_frame)) = [''category'']" by code_simp
  have g: "pipeline v no_category_frame = Inl (ValueError [''category''])" for v
    using pipeline_missing[OF n, of v] m by simp
  from a b c d e f g show ?thesis by simp
qed

section \<open>Claim C7: empty subsets\<close>

lemma aggregate_fields:
  assumes "aggregate v rows = Inr res"
  shows "\<exists>uq fq. usa_query rows = Inr uq \<and> female_query rows = Inr fq \<and>
           heatmap v (length (female_winners rows) = 0) (snd (snd fq)) = Inr () \<and>
           usa_ratio res = map_option fst uq \<and> max_decade_usa res = map_option snd uq \<and>
           max_female_dict res = fst fq \<and> prop_series res = fst (snd fq) \<and>
           prop_df res = snd (snd fq) \<and>
           first_woman_name res = fst (first_woman rows) \<and>
           first_woman_category res = snd (first_woman rows) \<and> nobel res = rows"
  using assms by (auto simp: aggregate_def bind_err_Inr_iff)

lemma length_zeros_data:
  "length (m_data (zeros_matrix idx cols)) = length idx * length cols"
  by (induction idx) (simp_all add: zeros_matrix_def)

lemma zeros_data_zero: "kv \<in> set (m_data (zeros_matrix idx cols)) \<Longrightarrow> snd kv = 0"
  by (auto simp: zeros_matrix_def)

lemma first_woman_empty:
  "female_winners rows = [] \<Longrightarrow> first_woman rows = (Str ''Unknown'', Str ''Unknown'')"
  by (simp add: first_woman_def)

lemma usa_query_skip: "usa_winners rows = [] \<Longrightarrow> usa_query rows = Inr None"
  by (simp add: usa_query_def)

text \<open>
  The queries by themselves give the sentinels: without USA-born records the USA query
  is skipped (\<^verbatim>\<open>max_decade_usa\<close> is \<^verbatim>\<open>None\<close>, no ratio is computed, nothing is
  plotted); without female records the name and the category of the first woman are
  \<^verbatim>\<open>Unknown\<close> and the matrix is all zeros, one row for every distinct decade and one
  column for every distinct category.
\<close>

lemma query_sentinels:
  "(usa_winners rows = [] \<longrightarrow> usa_query rows = Inr None) \<and>
   (female_winners rows = [] \<longrightarrow>
      first_woman rows = (Str ''Unknown'', Str ''Unknown'') \<and>
      (\<exists>m. female_query rows = Inr ((1900, Str ''Unknown''), [], m) \<and>
           m_index m = unique (map decade rows) \<and>
           m_columns m = unique (map category rows) \<and>
           length (m_data m) = length (m_index m) * length (m_columns m) \<and>
           (\<forall>d\<in>set (m_index m). \<forall>c\<in>set (m_columns m). map_of (m_data m) (d, c) = Some 0) \<and>
           (\<forall>kv\<in>set (m_data m). snd kv = 0)))"
proof (intro conjI impI)
  assume "usa_winners rows = []"
  then show "usa_query rows = Inr None" by (rule usa_query_skip)
next
  assume "female_winners rows = []"
  then show "first_woman rows = (Str ''Unknown'', Str ''Unknown'')" by (rule first_woman_empty)
next
  assume e: "female_winners rows = []"
  let ?m = "zeros_matrix (unique (map decade rows)) (unique (map category rows))"
  have "female_query rows = Inr ((1900, Str ''Unknown''), [], ?m)"
    using e by (rule female_query_empty)
  moreover have "m_index ?m = unique (map decade rows)" "m_columns ?m = unique (map category rows)"
    by (simp_all add: zeros_matrix_def)
  moreover have "length (m_data ?m) = length (m_index ?m) * length (m_columns ?m)"
    by (simp add: length_zeros_data) (simp add: zeros_matrix_def)
  moreover have "\<forall>d\<in>set (m_index ?m). \<forall>c\<in>set (m_columns ?m). map_of (m_data ?m) (d, c) = Some 0"
    by (simp add: map_of_zeros_matrix) (simp add: zeros_matrix_def)
  moreover have "\<forall>kv\<in>set (m_data ?m). snd kv = 0"
    by (auto dest: zeros_data_zero)
  ultimately show "\<exists>m. female_query rows = Inr ((1900, Str ''Unknown''), [], m) \<and>
           m_index m = unique (map decade rows) \<and>
           m_columns m = unique (map category rows) \<and>
           length (m_data m) = length (m_index m) * length (m_columns m) \<and>
           (\<forall>d\<in>set (m_index m). \<forall>c\<in>set (m_columns m). map_of (m_data m) (d, c) = Some 0) \<and>
           (\<forall>kv\<in>set (m_data m). snd kv = 0)"
    by (intro exI[of _ ?m] conjI)
qed

text \<open>
  The plots do not. The bar plot raises when there is a USA-born record and every decade
  of the table is before 1900; under pandas 3 the heat map raises whenever there is no
  female record.
\<close>

lemma keys_usa_ratio: "fst ` set (usa_ratio_of rows) = set (decade_keys rows)"
proof -
  have "fst ` set (usa_ratio_of rows) = set (map fst (usa_ratio_of rows))" by simp
  also have "\<dots> = set (decade_keys (usa_winners rows)) \<union> set (decade_keys rows)"
    unfolding usa_ratio_of_def keys_fillna0 keys_series_div
    by (simp add: usa_per_decade_def total_per_decade_def fst_set_groupby_size)
  also have "\<dots> = set (decade_keys rows)"
    using usa_keys_subset by blast
  finally show ?thesis .
qed

lemma bar_plot_before_1900:
  assumes "usa_winners rows \<noteq> []" and "decade_keys rows \<noteq> []"
    and "\<And>d. d \<in> set (decade_keys rows) \<Longrightarrow> d < 1900"
  shows "usa_query rows = Inl IndexError"
proof -
  from assms(2) have "set (decade_keys rows) \<noteq> {}" by simp
  then have "usa_ratio_of rows \<noteq> []"
    unfolding keys_usa_ratio[symmetric] by auto
  from idxmax_Inr[OF this] obtain dmax where ix: "idxmax (usa_ratio_of rows) = Inr dmax"
    by blast
  have "\<not> 1900 \<le> fst kv" if "kv \<in> set (usa_ratio_of rows)" for kv
  proof -
    from that have "fst kv \<in> set (decade_keys rows)"
      unfolding keys_usa_ratio[symmetric] by (rule imageI)
    from assms(3)[OF this] show ?thesis by simp
  qed
  then have "ratio_series (usa_ratio_of rows) = []"
    by (simp add: ratio_series_def filter_empty_conv)
  with assms(1) ix show ?thesis
    by (simp add: usa_query_def bar_plot_def bind_err_def)
qed

lemma heatmap_pandas3_no_female:
  assumes "female_winners rows = []"
  shows "isl (aggregate Pandas3 rows)"
proof -
  have h: "isl (heatmap Pandas3 True m)" for m
    by (simp add: heatmap_def)
  have "isl (bind_err (heatmap Pandas3 True m) f)" for m and f :: "unit \<Rightarrow> error + results"
    using h[of m] by (cases "heatmap Pandas3 True m") (simp_all add: bind_err_def)
  then show ?thesis
    unfolding aggregate_def
    by (simp add: assms female_query_empty[OF assms] bind_err_def split: sum.splits)
qed

text \<open>
  Claim C7 says that every query tolerates an empty subset without raising and that
  only the essential-column check may abort the run. Three tables pass the check and
  abort all the same. In the first the one record is USA-born and of the year 1895: the
  ratios from 1900 on are an empty Series and its bar plot raises IndexError (line
  120). The second has no USA-born and no female record: under pandas 2 the run ends
  with the sentinels of the claim; under pandas 3 the matrix of zeros is of dtype
  object and the heat map, which the comment of line 154 says is always plotted, raises
  TypeError (line 156). In the third a repeat winner has an empty category and
  \<^verbatim>\<open>', '.join(cats)\<close> raises TypeError (line 183).
\<close>

theorem empty_subset_aborts:
  "\<not> isl (load_table old_frame) \<and>
   usa_winners (projr (load_table old_frame)) \<noteq> [] \<and>
   ratio_series (usa_ratio_of (projr (load_table old_frame))) = [] \<and>
   pipeline Pandas2 old_frame = Inl IndexError \<and>
   pipeline Pandas3 old_frame = Inl IndexError \<and>
   \<not> isl (load_table quiet_frame) \<and>
   usa_winners (projr (load_table quiet_frame)) = [] \<and>
   female_winners (projr (load_table quiet_frame)) = [] \<and>
   pipeline Pandas3 quiet_frame = Inl TypeError \<and>
   \<not> isl (pipeline Pandas2 quiet_frame) \<and>
   max_decade_usa (projr (pipeline Pandas2 quiet_frame)) = None \<and>
   usa_ratio (projr (pipeline Pandas2 quiet_frame)) = None \<and>
   first_woman_name (projr (pipeline Pandas2 quiet_frame)) = Str ''Unknown'' \<and>
   first_woman_category (projr (pipeline Pandas2 quiet_frame)) = Str ''Unknown'' \<and>
   max_female_dict (projr (pipeline Pandas2 quiet_frame)) = (1900, Str ''Unknown'') \<and>
   prop_df (projr (pipeline Pandas2 quiet_frame)) =
     \<lparr>m_index = [Num 1900, Num 1910], m_columns = [Str ''Physics'', Str ''Peace''],
      m_data = [((Num 1900, Str ''Physics''), 0), ((Num 1900, Str ''Peace''), 0),
                ((Num 1910, Str ''Physics''), 0), ((Num 1910, Str ''Peace''), 0)]\<rparr> \<and>
   \<not> isl (load_table blank_category_frame) \<and>
   map category (projr (load_table blank_category_frame)) = [Str ''Physics'', Null] \<and>
   pipeline Pandas2 blank_category_frame = Inl TypeError \<and>
   pipeline Pandas3 blank_category_frame = Inl TypeError"
proof -
  have o: "\<not> isl (load_table old_frame)"
          "usa_winners (projr (load_table old_frame)) \<noteq> []"
          "ratio_series (usa_ratio_of (projr (load_table old_frame))) = []"
    by code_simp+
  have "isl (pipeline Pandas2 old_frame)" "projl (pipeline Pandas2 old_frame) = IndexError"
    by code_simp+
  then have o2: "pipeline Pandas2 old_frame = Inl IndexError" by (rule Inl_eqI)
  have "isl (pipeline Pandas3 old_frame)" "projl (pipeline Pandas3 old_frame) = IndexError"
    by code_simp+
  then have o3: "pipeline Pandas3 old_frame = Inl IndexError" by (rule Inl_eqI)
  have q: "\<not> isl (load_table quiet_frame)"
          "usa_winners (projr (load_table quiet_frame)) = []"
          "female_winners (projr (load_table quiet_frame)) = []"
    by code_simp+
  have "isl (pipeline Pandas3 quiet_frame)" "projl (pipeline Pandas3 quiet_frame) = TypeError"
    by code_simp+
  then have q3: "pipeline Pandas3 quiet_frame = Inl TypeError" by (rule Inl_eqI)
  have q2: "\<not> isl (pipeline Pandas2 quiet_frame)"
           "max_decade_usa (projr (pipeline Pandas2 quiet_frame)) = None"
           "usa_ratio (projr (pipeline Pandas2 quiet_frame)) = None"
           "first_woman_name (projr (pipeline Pandas2 quiet_frame)) = Str ''Unknown''"
           "first_woman_category (projr (pipeline Pandas2 quiet_frame)) = Str ''Unknown''"
           "max_female_dict (projr (pipeline Pandas2 quiet_frame)) = (1900, Str ''Unknown'')"
    by code_simp+
  have qm: "m_index (prop_df (projr (pipeline Pandas2 quiet_frame))) = [Num 1900, Num 1910]"
           "m_columns (prop_df (projr (pipeline Pandas2 quiet_frame))) = [Str ''Physics'', Str ''Peace'']"
           "m_data (prop_df (projr (pipeline Pandas2 quiet_frame))) =
              [((Num 1900, Str ''Physics''), 0), ((Num 1900, Str ''Peace''), 0),
               ((Num 1910, Str ''Physics''), 0), ((Num 1910, Str ''Peace''), 0)]"
    by code_simp+
  then have qd: "prop_df (projr (pipeline Pandas2 quiet_frame)) =
     \<lparr>m_index = [Num 1900, Num 1910], m_columns = [Str ''Physics'', Str ''Peace''],
      m_data = [((Num 1900, Str ''Physics''), 0), ((Num 1900, Str ''Peace''), 0),
                ((Num 1910, Str ''Physics''), 0), ((Num 1910, Str ''Peace''), 0)]\<rparr>"
    by (cases "prop_df (projr (pipeline Pandas2 quiet_frame))") simp
  have b: "\<not> isl (load_table blank_category_frame)"
          "map category (projr (load_table blank_category_frame)) = [Str ''Physics'', Null]"
    by code_simp+
  have "isl (pipeline Pandas2 blank_category_frame)"
       "projl (pipeline Pandas2 blank_category_frame) = TypeError"
    by code_simp+
  then have b2: "pipeline Pandas2 blank_category_frame = Inl TypeError" by (rule Inl_eqI)
  have "isl (pipeline Pandas3 blank_category_frame)"
       "projl (pipeline Pandas3 blank_category_frame) = TypeError"
    by code_simp+
  then have b3: "pipeline Pandas3 blank_category_frame = Inl TypeError" by (rule Inl_eqI)
  from o o2 o3 q q3 q2 qd b b2 b3 show ?thesis by simp
qed

section \<open>Claim C10: no alias of sex\<close>

text \<open>
  Without an alias of \<open>sex\<close> the check is passed as far as \<open>sex\<close> goes (see
  \<open>sex_never_missing\<close>), and \<open>sex\<close> is \<^verbatim>\<open>unknown\<close> in every record of the table.
\<close>

lemma absent_sex_filled:
  assumes "load_table df = Inr rows" and "wf_frame df"
    and "\<And>a. a \<in> set (aliases ''sex'') \<Longrightarrow> map_of df a = None"
  shows "length rows = nrows df \<and> list_all (\<lambda>r. sex r = Str ''unknown'') rows"
proof -
  from assms(3) have nos: "find_variant df (aliases ''sex'') = None"
    by (simp add: find_variant_None_iff)
  from load_table_wf[OF assms(1,2)] nos have
    l: "length rows = nrows df" and u: "\<forall>i<nrows df. sex (rows ! i) = Str ''unknown''"
    by blast+
  from l u have "list_all (\<lambda>r. sex r = Str ''unknown'') rows"
    by (simp add: list_all_length)
  with l show ?thesis by simp
qed

text \<open>
  Claim C10 says that the run does not abort when the input has no alias of \<open>sex\<close> and
  the other four fields are present. The check is passed and \<open>sex\<close> is \<^verbatim>\<open>unknown\<close> in
  every record, as the claim says, but the run aborts in the plots that follow. In the
  table whose one record is USA-born and of the year 1895 the bar plot of the ratios
  from 1900 on raises IndexError (line 120). Without a \<open>sex\<close> column there is no female
  record, and under pandas 3 the heat map of the matrix of zeros raises TypeError (line
  156): the table of two records that ends its run under pandas 2 aborts there.
\<close>

theorem missing_sex_run_aborts:
  "find_variant old_no_sex_frame (aliases ''sex'') = None \<and>
   \<not> isl (load_table old_no_sex_frame) \<and>
   map sex (projr (load_table old_no_sex_frame)) = [Str ''unknown''] \<and>
   pipeline Pandas2 old_no_sex_frame = Inl IndexError \<and>
   pipeline Pandas3 old_no_sex_frame = Inl IndexError \<and>
   find_variant no_sex_frame (aliases ''sex'') = None \<and>
   \<not> isl (load_table no_sex_frame) \<and>
   map sex (projr (load_table no_sex_frame)) = [Str ''unknown'', Str ''unknown''] \<and>
   pipeline Pandas3 no_sex_frame = Inl TypeError \<and>
   \<not> isl (pipeline Pandas2 no_sex_frame) \<and>
   map sex (nobel (projr (pipeline Pandas2 no_sex_frame))) = [Str ''unknown'', Str ''unknown'']"
proof -
  have o: "find_variant old_no_sex_frame (aliases ''sex'') = None"
          "\<not> isl (load_table old_no_sex_frame)"
          "map sex (projr (load_table old_no_sex_frame)) = [Str ''unknown'']"
    by code_simp+
  have "isl (pipeline Pandas2 old_no_sex_frame)"
       "projl (pipeline Pandas2 old_no_sex_frame) = IndexError"
    by code_simp+
  then have o2: "pipeline Pandas2 old_no_sex_frame = Inl IndexError" by (rule Inl_eqI)
  have "isl (pipeline Pandas3 old_no_sex_frame)"
       "projl (pipeline Pandas3 old_no_sex_frame) = IndexError"
    by code_simp+
  then have o3: "pipeline Pandas3 old_no_sex_frame = Inl IndexError" by (rule Inl_eqI)
  have n: "find_variant no_sex_frame (aliases ''sex'') = None"
          "\<not> isl (load_table no_sex_frame)"
          "map sex (projr (load_table no_sex_frame)) = [Str ''unknown'', Str ''unknown'']"
          "\<not> isl (pipeline Pandas2 no_sex_frame)"
          "map sex (nobel (projr (pipeline Pandas2 no_sex_frame))) = [Str ''unknown'', Str ''unknown'']"
    by code_simp+
  have "isl (pipeline Pandas3 no_sex_frame)" "projl (pipeline Pandas3 no_sex_frame) = TypeError"
    by code_simp+
  then have n3: "pipeline Pandas3 no_sex_frame = Inl TypeError" by (rule Inl_eqI)
  from o o2 o3 n n3 show ?thesis by simp
qed

end
